theory Spec2Isabelle
  imports Complex_Main
begin

section \<open>Python values, strings and errors\<close>

text \<open>
  The two document stores of the repository are Python classes that talk to an external
  backend: \<^verbatim>\<open>PgvectorDocumentStore\<close> to PostgreSQL through psycopg, and
  \<^verbatim>\<open>AzureAISearchDocumentStore\<close> to the Azure AI Search service through its SDK.
  The stores are embedded as functions on explicit state: the instance attributes are a
  record, the backend is a record, and every exception of the source is a value of
  \<open>error\<close> returned on the left of a sum.
\<close>

text \<open>
  Dynamically typed Python values: metadata values and the fields of an index document
  (\<open>PyVec\<close> is a list of floats).
\<close>

datatype pyval =
  PyNone | PyStr string | PyInt int | PyBool bool | PyFloat real | PyVec "real list"

text \<open>
  Exceptions. \<open>PsycopgError\<close> and \<open>AzureSdkError\<close> are the backend-native exceptions of
  the two drivers; \<open>DuplicateDocumentError\<close> and \<open>DocumentStoreError\<close> are the
  framework's document store errors and \<open>FilterError\<close> its filter syntax error (no
  function of the two stores raises it; the filter compiler may); the others are Python
  built-ins.
\<close>

datatype pg_error = IntegrityError | DataError | ProgrammingError | OperationalError

datatype azure_error = ResourceNotFoundError | HttpResponseError

datatype error =
    ValueError
  | TypeError
  | AttributeError
  | KeyError
  | UnboundLocalError
  | PyException
  | DuplicateDocumentError
  | DocumentStoreError
  | FilterError
  | PsycopgError pg_error
  | AzureSdkError azure_error

text \<open>The characters that cannot be written inside a string literal comfortably.\<close>

definition sq :: string where
  "sq = [CHR 0x27]"

definition dq :: string where
  "dq = [CHR 0x22]"

definition nl :: string where
  "nl = [CHR 0x0A]"

text \<open>Python's \<^verbatim>\<open>sep.join(xs)\<close>.\<close>

fun join :: "string \<Rightarrow> string list \<Rightarrow> string" where
  "join sep [] = []"
| "join sep [x] = x"
| "join sep (x # y # ys) = x @ sep @ join sep (y # ys)"

text \<open>Python's \<^verbatim>\<open>str\<close> on a non-negative and on an arbitrary integer.\<close>

fun str_nat :: "nat \<Rightarrow> string" where
  "str_nat n =
     (if n < 10 then [char_of (48 + n)]
      else str_nat (n div 10) @ [char_of (48 + n mod 10)])"

declare str_nat.simps [simp del]

definition str_int :: "int \<Rightarrow> string" where
  "str_int i = (if i < 0 then ''-'' @ str_nat (nat (- i)) else str_nat (nat i))"

text \<open>
  psycopg's \<^verbatim>\<open>sql.Identifier(name)\<close> as it is rendered into a statement: the name in
  double quotes, an embedded double quote doubled.
\<close>

definition Identifier :: "string \<Rightarrow> string" where
  "Identifier name = dq @ concat (map (\<lambda>c. if c = CHR 0x22 then dq @ dq else [c]) name) @ dq"

text \<open>
  psycopg's \<^verbatim>\<open>sql.Literal\<close> on a string (single quotes, an embedded quote doubled;
  a string with a backslash is rendered in the escape syntax) and on an integer (a
  negative number gets a leading blank).
\<close>

definition Literal_str :: "string \<Rightarrow> string" where
  "Literal_str s =
     (if CHR 0x5C \<in> set s then '' E'' else '''') @ sq
     @ concat (map (\<lambda>c. if c = CHR 0x27 then sq @ sq
                          else if c = CHR 0x5C then [c, c] else [c]) s)
     @ sq"

definition Literal_int :: "int \<Rightarrow> string" where
  "Literal_int i = (if i < 0 then '' '' else '''') @ str_int i"

section \<open>The pgvector store: instance attributes\<close>

text \<open>
  The attributes \<^verbatim>\<open>__init__\<close> sets. \<open>p_connection\<close> and
  \<open>p_schema_is_initialized\<close> are the source's \<^verbatim>\<open>_connection\<close> and
  \<^verbatim>\<open>_schema_is_initialized\<close>; a connection object is a handle (a number) into the
  database server's state.
\<close>

record PgvectorDocumentStore =
  connection_string :: string
  table_name :: string
  schema_name :: string
  embedding_dimension :: nat
  vector_function :: string
  recreate_table :: bool
  search_strategy :: string
  hnsw_recreate_index_if_exists :: bool
  hnsw_index_creation_kwargs :: "(string \<times> int) list"
  hnsw_index_name :: string
  hnsw_ef_search :: "int option"
  keyword_index_name :: string
  language :: string
  p_connection :: "nat option"
  p_schema_is_initialized :: bool

definition VALID_VECTOR_FUNCTIONS :: "string list" where
  "VALID_VECTOR_FUNCTIONS = [''cosine_similarity'', ''inner_product'', ''l2_distance'']"

text \<open>
  \<^verbatim>\<open>__init__\<close>: the only check is the one on \<^verbatim>\<open>vector_function\<close>; an empty or missing
  \<^verbatim>\<open>hnsw_index_creation_kwargs\<close> becomes the empty dictionary.
\<close>

definition pgvector_init ::
  "string \<Rightarrow> string \<Rightarrow> string \<Rightarrow> string \<Rightarrow> nat \<Rightarrow> string \<Rightarrow> bool \<Rightarrow> string \<Rightarrow> bool
   \<Rightarrow> (string \<times> int) list option \<Rightarrow> string \<Rightarrow> int option \<Rightarrow> string
   \<Rightarrow> error + PgvectorDocumentStore" where
  "pgvector_init conn_str schema tab lang edim vf recreate strategy hnsw_recreate kwargs
     hnsw_name ef_search kw_name =
     (if vf \<notin> set VALID_VECTOR_FUNCTIONS then Inl ValueError
      else Inr \<lparr> connection_string = conn_str, table_name = tab, schema_name = schema,
                 embedding_dimension = edim, vector_function = vf, recreate_table = recreate,
                 search_strategy = strategy,
                 hnsw_recreate_index_if_exists = hnsw_recreate,
                 hnsw_index_creation_kwargs = (case kwargs of None \<Rightarrow> [] | Some kw \<Rightarrow> kw),
                 hnsw_index_name = hnsw_name, hnsw_ef_search = ef_search,
                 keyword_index_name = kw_name, language = lang,
                 p_connection = None, p_schema_is_initialized = False \<rparr>)"

text \<open>The instance the constructor's default arguments give.\<close>

definition default_store :: PgvectorDocumentStore where
  "default_store =
     \<lparr> connection_string = ''PG_CONN_STR'', table_name = ''haystack_documents'',
       schema_name = ''public'', embedding_dimension = 768,
       vector_function = ''cosine_similarity'', recreate_table = False,
       search_strategy = ''exact_nearest_neighbor'',
       hnsw_recreate_index_if_exists = False, hnsw_index_creation_kwargs = [],
       hnsw_index_name = ''haystack_hnsw_index'', hnsw_ef_search = None,
       keyword_index_name = ''haystack_keyword_index'', language = ''english'',
       p_connection = None, p_schema_is_initialized = False \<rparr>"

section \<open>The pgvector store: the text of the statements\<close>

text \<open>
  \<^verbatim>\<open>schema_name.table_name\<close> as every statement formats it:
  \<^verbatim>\<open>{schema_name}.{table_name}\<close> with both names as identifiers.
\<close>

definition qualified_table :: "PgvectorDocumentStore \<Rightarrow> string" where
  "qualified_table s = Identifier (schema_name s) @ ''.'' @ Identifier (table_name s)"

text \<open>
  \<^verbatim>\<open>delete_documents\<close>: each id is wrapped in single quotes by an f-string, the ids are
  joined with a comma, and the result is placed in the statement as \<^verbatim>\<open>SQL(...)\<close>, that
  is as statement text. With no ids the method returns before it builds a statement
  (\<open>None\<close>).
\<close>

definition document_ids_str :: "string list \<Rightarrow> string" where
  "document_ids_str document_ids = join '', '' (map (\<lambda>document_id. sq @ document_id @ sq) document_ids)"

definition delete_documents_sql :: "PgvectorDocumentStore \<Rightarrow> string list \<Rightarrow> string option" where
  "delete_documents_sql s document_ids =
     (if document_ids = [] then None
      else Some (''DELETE FROM '' @ qualified_table s @ '' WHERE id IN (''
                 @ document_ids_str document_ids @ '')''))"

text \<open>
  \<^verbatim>\<open>_embedding_retrieval\<close>, the text it builds once its arguments are validated. The
  query embedding is rendered with Python's \<^verbatim>\<open>str\<close> on each element; how Python prints
  a float is outside this model, so \<open>str_el\<close> is a parameter. The last branch is the
  source's missing \<^verbatim>\<open>else\<close>: \<^verbatim>\<open>score_definition\<close> would be unbound.
\<close>

definition query_embedding_for_postgres :: "('a \<Rightarrow> string) \<Rightarrow> 'a list \<Rightarrow> string" where
  "query_embedding_for_postgres str_el query_embedding =
     sq @ ''['' @ join '','' (map str_el query_embedding) @ '']'' @ sq"

definition score_definition :: "string \<Rightarrow> string \<Rightarrow> error + string" where
  "score_definition vf q =
     (if vf = ''cosine_similarity'' then Inr (''1 - (embedding <=> '' @ q @ '') AS score'')
      else if vf = ''inner_product'' then Inr (''(embedding <#> '' @ q @ '') * -1 AS score'')
      else if vf = ''l2_distance'' then Inr (''embedding <-> '' @ q @ '' AS score'')
      else Inl UnboundLocalError)"

definition sort_order :: "string \<Rightarrow> string" where
  "sort_order vf = (if vf = ''l2_distance'' then ''ASC'' else ''DESC'')"

definition embedding_retrieval_sql ::
  "PgvectorDocumentStore \<Rightarrow> ('a \<Rightarrow> string) \<Rightarrow> 'a list \<Rightarrow> string \<Rightarrow> int \<Rightarrow> string
   \<Rightarrow> error + string" where
  "embedding_retrieval_sql s str_el query_embedding sql_where_clause top_k vf =
     (case score_definition vf (query_embedding_for_postgres str_el query_embedding) of
        Inl e \<Rightarrow> Inl e
      | Inr score \<Rightarrow>
          Inr (''SELECT *, '' @ score @ '' FROM '' @ qualified_table s
               @ sql_where_clause
               @ '' ORDER BY score '' @ sort_order vf @ '' LIMIT '' @ Literal_int top_k))"

text \<open>
  \<^verbatim>\<open>_keyword_retrieval\<close>: \<^verbatim>\<open>KEYWORD_QUERY\<close> has no \<^verbatim>\<open>{query}\<close> field, so the
  \<^verbatim>\<open>query=SQLLiteral(query)\<close> argument of \<^verbatim>\<open>format\<close> is not used; the user's query
  reaches the backend as the first parameter of the statement (the \<^verbatim>\<open>%s\<close> of
  \<^verbatim>\<open>plainto_tsquery\<close>).
\<close>

definition KEYWORD_QUERY :: "string \<Rightarrow> string \<Rightarrow> string \<Rightarrow> string" where
  "KEYWORD_QUERY tab schema lang =
     nl @ ''SELECT '' @ tab @ ''.*, ts_rank_cd(to_tsvector('' @ lang @ '', content), query) AS score''
     @ nl @ ''FROM '' @ schema @ ''.'' @ tab @ '', plainto_tsquery('' @ lang @ '', %s) query''
     @ nl @ ''WHERE to_tsvector('' @ lang @ '', content) @@ query'' @ nl"

definition keyword_retrieval_sql ::
  "PgvectorDocumentStore \<Rightarrow> string \<Rightarrow> string \<Rightarrow> int \<Rightarrow> string" where
  "keyword_retrieval_sql s query sql_where_clause top_k =
     KEYWORD_QUERY (Identifier (table_name s)) (Identifier (schema_name s))
       (Literal_str (language s))
     @ sql_where_clause
     @ '' ORDER BY score DESC LIMIT '' @ Literal_int top_k"

definition keyword_retrieval_params :: "string \<Rightarrow> pyval list \<Rightarrow> pyval list" where
  "keyword_retrieval_params query where_params = PyStr query # where_params"

section \<open>Documents\<close>

text \<open>
  The framework's \<^verbatim>\<open>Document\<close> dataclass (not part of this repository). Its \<^verbatim>\<open>id\<close> is
  annotated as a string, but Python does not enforce the annotation, so an id is a
  string or an integer here. \<open>str_id\<close> is Python's \<^verbatim>\<open>str\<close> on an id, which is also the
  text PostgreSQL stores when an integer is assigned to a \<^verbatim>\<open>VARCHAR\<close> column.
\<close>

datatype pyid = StrId string | IntId int

fun str_id :: "pyid \<Rightarrow> string" where
  "str_id (StrId s) = s"
| "str_id (IntId i) = str_int i"

record ByteStream =
  bs_data :: string
  bs_meta :: "(string \<times> pyval) list"
  bs_mime_type :: "string option"

text \<open>
  A \<^verbatim>\<open>double precision\<close> value of the server and the Python \<^verbatim>\<open>float\<close> read from it: a
  number or NaN. Rounding and overflow are left out.
\<close>

datatype float8 = Number real | NaN

record Document =
  doc_id :: pyid
  content :: "string option"
  dataframe :: "string option"
  blob :: "ByteStream option"
  meta :: "(string \<times> pyval) list"
  score :: "float8 option"
  embedding :: "real list option"
  sparse_embedding :: "string option"

text \<open>
  An element of the list a caller passes to \<^verbatim>\<open>write_documents\<close>: a \<^verbatim>\<open>Document\<close>, or
  any other Python object. Of such an object only its \<^verbatim>\<open>id\<close> attribute matters, when
  it has one; it has no \<^verbatim>\<open>to_dict\<close> method and is not a dataclass instance.
\<close>

datatype element = Doc Document | Obj "pyid option"

fun isinstance_Document :: "element \<Rightarrow> bool" where
  "isinstance_Document (Doc d) = True"
| "isinstance_Document (Obj a) = False"

datatype DuplicatePolicy = NONE | SKIP | OVERWRITE | FAIL

section \<open>The pgvector store: the PostgreSQL server as psycopg shows it\<close>

text \<open>
  A row of the documents table, which is also the parameter dictionary of the
  \<^verbatim>\<open>INSERT\<close> statement: the eight columns of \<^verbatim>\<open>CREATE_TABLE_STATEMENT\<close>.
\<close>

record db_document =
  r_id :: pyid
  r_embedding :: "real list option"
  r_content :: "string option"
  r_dataframe :: "string option"
  r_blob_data :: "string option"
  r_blob_meta :: "(string \<times> pyval) list option"
  r_blob_mime_type :: "string option"
  r_meta :: "(string \<times> pyval) list"

text \<open>
  What the source asks of the server, one constructor per statement or driver call, with
  the values the statement carries. The conflict clause of an insert is what
  \<^verbatim>\<open>_connected_write_documents\<close> appends to \<^verbatim>\<open>INSERT_STATEMENT\<close>; the score expression and
  the direction of a vector search are what \<^verbatim>\<open>_embedding_retrieval\<close> formats into its
  \<^verbatim>\<open>SELECT\<close>.
\<close>

datatype conflict_action = NoConflictClause | OnConflictDoNothing | OnConflictDoUpdate

datatype index_method = Gin string | Hnsw string "(string \<times> int) list"

datatype score_expr = OneMinusCosineDistance | InnerProductTimesMinusOne | L2Distance

datatype order_dir = ASC | DESC

datatype pg_call =
    Connect string
  | CreateExtension
  | CreateTable nat
  | DropTable string
  | SelectIndexExists string string
  | CreateIndex string string index_method
  | SetHnswEfSearch int
  | DropIndex string
  | InsertMany conflict_action "db_document list"
  | SelectAll "(string \<times> pyval list) option"
  | SelectKeyword string string "(string \<times> pyval list) option" int
  | SelectEmbedding score_expr "real list" "(string \<times> pyval list) option" order_dir int
  | Commit
  | Rollback
  | Close

datatype pg_result =
    NoResult
  | Flag bool
  | ResultSets "string list list"
  | Rows "(db_document \<times> float8 option) list"

text \<open>
  The world outside the store instance: the documents table (its vector dimension and
  its rows, \<open>None\<close> while it does not exist), the catalogue \<^verbatim>\<open>pg_indexes\<close> as pairs of
  table name and index name, every call made so far, the number of connections opened,
  and the warnings the module's logger has emitted. Four things are parameters of the
  server: which calls it rejects and with which error (\<open>db_fault\<close>), the rows a
  \<^verbatim>\<open>WHERE\<close> text with its parameters selects (\<open>db_where\<close>; the filter compiler
  \<^verbatim>\<open>filters.py\<close> that writes the text is not among the files), the full-text rank
  (\<open>db_ts_rank\<close>, \<open>None\<close> for a row the query does not match), and the three
  distance operators of the vector extension, whose results are \<^verbatim>\<open>double precision\<close>
  values (the cosine distance of a zero vector is NaN).
\<close>

record pg_world =
  db_table :: "(nat \<times> db_document list) option"
  db_indexes :: "(string \<times> string) list"
  db_calls :: "pg_call list"
  db_connections :: nat
  warnings :: "string list"
  db_fault :: "pg_call \<Rightarrow> pg_error option"
  db_where :: "string \<Rightarrow> pyval list \<Rightarrow> db_document \<Rightarrow> bool"
  db_ts_rank :: "string \<Rightarrow> string \<Rightarrow> db_document \<Rightarrow> real option"
  op_cosine_distance :: "real list \<Rightarrow> real list \<Rightarrow> float8"
  op_neg_inner_product :: "real list \<Rightarrow> real list \<Rightarrow> float8"
  op_l2_distance :: "real list \<Rightarrow> real list \<Rightarrow> float8"

definition table_rows :: "pg_world \<Rightarrow> db_document list" where
  "table_rows w = (case db_table w of None \<Rightarrow> [] | Some (d, rows) \<Rightarrow> rows)"

definition row_ids :: "db_document list \<Rightarrow> string list" where
  "row_ids rows = map (\<lambda>r. str_id (r_id r)) rows"

text \<open>
  One \<^verbatim>\<open>INSERT ... RETURNING id\<close> for one parameter dictionary. The server refuses an id
  longer than the \<^verbatim>\<open>VARCHAR(128)\<close> and a vector whose length is not the column's
  dimension (a data error), and a second row with a primary key it has, unless the
  statement has a conflict clause (an integrity error). The result is the new table and
  the rows \<^verbatim>\<open>RETURNING id\<close> gives: the id of an inserted or updated row, nothing for a
  row that \<^verbatim>\<open>DO NOTHING\<close> left alone. The stored id is text.
\<close>

definition stored :: "db_document \<Rightarrow> db_document" where
  "stored r = r\<lparr>r_id := StrId (str_id (r_id r))\<rparr>"

definition insert_row ::
  "conflict_action \<Rightarrow> nat \<Rightarrow> db_document \<Rightarrow> db_document list
   \<Rightarrow> pg_error + (string list \<times> db_document list)" where
  "insert_row act d r rows =
     (if length (str_id (r_id r)) > 128 then Inl DataError
      else if (case r_embedding r of None \<Rightarrow> False | Some v \<Rightarrow> length v \<noteq> d) then Inl DataError
      else if str_id (r_id r) \<in> set (row_ids rows) then
        (case act of
           NoConflictClause \<Rightarrow> Inl IntegrityError
         | OnConflictDoNothing \<Rightarrow> Inr ([], rows)
         | OnConflictDoUpdate \<Rightarrow>
             Inr ([str_id (r_id r)],
                  map (\<lambda>old. if str_id (r_id old) = str_id (r_id r) then stored r else old) rows))
      else Inr ([str_id (r_id r)], rows @ [stored r]))"

text \<open>
  \<^verbatim>\<open>executemany\<close> runs the statement once per parameter dictionary, in order. psycopg
  (from 3.1, which the \<^verbatim>\<open>returning\<close> argument needs) sends the batch in pipeline mode,
  where the server treats it as one implicit transaction: the first failing statement
  aborts the batch and none of its rows stays. A successful batch gives one result set
  per dictionary.
\<close>

fun insert_rows ::
  "conflict_action \<Rightarrow> nat \<Rightarrow> db_document list \<Rightarrow> db_document list
   \<Rightarrow> pg_error + (string list list \<times> db_document list)" where
  "insert_rows act d [] rows = Inr ([], rows)"
| "insert_rows act d (r # rs) rows =
     (case insert_row act d r rows of
        Inl e \<Rightarrow> Inl e
      | Inr (res, rows1) \<Rightarrow>
          (case insert_rows act d rs rows1 of
             Inl e \<Rightarrow> Inl e
           | Inr (ress, rows2) \<Rightarrow> Inr (res # ress, rows2)))"

text \<open>
  \<^verbatim>\<open>ORDER BY score\<close>: PostgreSQL sorts NaN as larger than every number and a null as
  larger than every value, so in ascending order the numbers are followed by the NaNs and
  then the nulls, and in descending order the nulls come first, then the NaNs, then the
  numbers. \<^verbatim>\<open>LIMIT\<close> with a negative count, or one above the largest \<^verbatim>\<open>bigint\<close>, is an
  error.
\<close>

fun is_number :: "float8 option \<Rightarrow> bool" where
  "is_number (Some (Number x)) = True"
| "is_number v = False"

fun number_of :: "float8 option \<Rightarrow> real" where
  "number_of (Some (Number x)) = x"
| "number_of v = 0"

definition order_by_score ::
  "order_dir \<Rightarrow> (db_document \<times> float8 option) list \<Rightarrow> (db_document \<times> float8 option) list" where
  "order_by_score dir rs =
     (let nulls = filter (\<lambda>r. snd r = None) rs;
          nans = filter (\<lambda>r. snd r = Some NaN) rs;
          vals = filter (\<lambda>r. is_number (snd r)) rs
      in case dir of
           ASC \<Rightarrow> sort_key (\<lambda>r. number_of (snd r)) vals @ nans @ nulls
         | DESC \<Rightarrow> nulls @ nans @ sort_key (\<lambda>r. - number_of (snd r)) vals)"

definition max_bigint :: int where
  "max_bigint = 9223372036854775807"

definition where_matches ::
  "pg_world \<Rightarrow> (string \<times> pyval list) option \<Rightarrow> db_document \<Rightarrow> bool" where
  "where_matches w cond r =
     (case cond of None \<Rightarrow> True | Some (txt, params) \<Rightarrow> db_where w txt params r)"

text \<open>
  The score column of a vector search: null for a row whose embedding is null, otherwise
  the expression of \<open>score_definition\<close> on the operator's value. Arithmetic on NaN
  gives NaN.
\<close>

fun one_minus :: "float8 \<Rightarrow> float8" where
  "one_minus (Number x) = Number (1 - x)"
| "one_minus NaN = NaN"

fun times_minus_one :: "float8 \<Rightarrow> float8" where
  "times_minus_one (Number x) = Number (x * (- 1))"
| "times_minus_one NaN = NaN"

definition score_of :: "pg_world \<Rightarrow> score_expr \<Rightarrow> real list \<Rightarrow> db_document \<Rightarrow> float8 option" where
  "score_of w ex q r =
     (case r_embedding r of
        None \<Rightarrow> None
      | Some v \<Rightarrow>
          Some (case ex of
                  OneMinusCosineDistance \<Rightarrow> one_minus (op_cosine_distance w v q)
                | InnerProductTimesMinusOne \<Rightarrow> times_minus_one (op_neg_inner_product w v q)
                | L2Distance \<Rightarrow> op_l2_distance w v q))"

text \<open>
  What a call does when the server accepts it. A statement on the documents table fails
  while the table does not exist; \<^verbatim>\<open>CREATE INDEX\<close> fails when the name is taken. The
  server has one schema, the one the store is configured with and the one unqualified
  names resolve to; a store whose schema is not on the search path is outside the model.
\<close>

fun run_call :: "pg_call \<Rightarrow> pg_world \<Rightarrow> pg_error + (pg_result \<times> pg_world)" where
  "run_call (Connect cs) w = Inr (NoResult, w\<lparr>db_connections := db_connections w + 1\<rparr>)"
| "run_call CreateExtension w = Inr (NoResult, w)"
| "run_call (CreateTable d) w =
     Inr (NoResult, case db_table w of None \<Rightarrow> w\<lparr>db_table := Some (d, [])\<rparr> | Some t \<Rightarrow> w)"
| "run_call (DropTable t) w =
     Inr (NoResult, w\<lparr>db_table := None,
                      db_indexes := filter (\<lambda>ti. fst ti \<noteq> t) (db_indexes w)\<rparr>)"
| "run_call (SelectIndexExists t i) w = Inr (Flag ((t, i) \<in> set (db_indexes w)), w)"
| "run_call (CreateIndex t i m) w =
     (if db_table w = None \<or> i \<in> snd ` set (db_indexes w) then Inl ProgrammingError
      else Inr (NoResult, w\<lparr>db_indexes := db_indexes w @ [(t, i)]\<rparr>))"
| "run_call (SetHnswEfSearch n) w = Inr (NoResult, w)"
| "run_call (DropIndex i) w =
     Inr (NoResult, w\<lparr>db_indexes := filter (\<lambda>ti. snd ti \<noteq> i) (db_indexes w)\<rparr>)"
| "run_call (InsertMany act params) w =
     (case db_table w of
        None \<Rightarrow> Inl ProgrammingError
      | Some (d, rows) \<Rightarrow>
          (case insert_rows act d params rows of
             Inl e \<Rightarrow> Inl e
           | Inr (ress, rows1) \<Rightarrow> Inr (ResultSets ress, w\<lparr>db_table := Some (d, rows1)\<rparr>)))"
| "run_call (SelectAll cond) w =
     (case db_table w of
        None \<Rightarrow> Inl ProgrammingError
      | Some (d, rows) \<Rightarrow>
          Inr (Rows (map (\<lambda>r. (r, None)) (filter (where_matches w cond) rows)), w))"
| "run_call (SelectKeyword lang query cond k) w =
     (case db_table w of
        None \<Rightarrow> Inl ProgrammingError
      | Some (d, rows) \<Rightarrow>
          (if k < 0 \<or> k > max_bigint then Inl DataError
           else Inr (Rows (take (nat k) (order_by_score DESC
                  (map (\<lambda>r. (r, map_option Number (db_ts_rank w lang query r)))
                     (filter (\<lambda>r. db_ts_rank w lang query r \<noteq> None \<and> where_matches w cond r)
                        rows)))), w)))"
| "run_call (SelectEmbedding ex q cond dir k) w =
     (case db_table w of
        None \<Rightarrow> Inl ProgrammingError
      | Some (d, rows) \<Rightarrow>
          (if k < 0 \<or> k > max_bigint \<or> length q \<noteq> d then Inl DataError
           else Inr (Rows (take (nat k) (order_by_score dir
                  (map (\<lambda>r. (r, score_of w ex q r)) (filter (where_matches w cond) rows)))), w)))"
| "run_call Commit w = Inr (NoResult, w)"
| "run_call Rollback w = Inr (NoResult, w)"
| "run_call Close w = Inr (NoResult, w)"

text \<open>
  A call through psycopg: it is recorded, and it either fails with the error the server
  gives (nothing of the call stays) or has its effect. Every connection the store opens
  is in autocommit mode, so an accepted statement is durable at once, and \<^verbatim>\<open>commit\<close>,
  \<^verbatim>\<open>rollback\<close> and \<^verbatim>\<open>close\<close> on it send nothing to the server: they are only
  recorded (\<open>note_call\<close>).
\<close>

definition pg_execute :: "pg_call \<Rightarrow> pg_world \<Rightarrow> (pg_error + pg_result) \<times> pg_world" where
  "pg_execute c w =
     (let w1 = w\<lparr>db_calls := db_calls w @ [c]\<rparr>
      in case db_fault w c of
           Some e \<Rightarrow> (Inl e, w1)
         | None \<Rightarrow>
             (case run_call c w1 of
                Inl e \<Rightarrow> (Inl e, w1)
              | Inr (r, w2) \<Rightarrow> (Inr r, w2)))"

definition note_call :: "pg_call \<Rightarrow> pg_world \<Rightarrow> pg_world" where
  "note_call c w = w\<lparr>db_calls := db_calls w @ [c]\<rparr>"

section \<open>The pgvector store: connection, schema and index\<close>

text \<open>
  A method of the class runs on the instance and the world, and returns its value or the
  exception it raises together with both.
\<close>

type_synonym pg_state = "PgvectorDocumentStore \<times> pg_world"

definition bindE ::
  "(error + 'a) \<times> 'st \<Rightarrow> ('a \<Rightarrow> 'st \<Rightarrow> (error + 'b) \<times> 'st) \<Rightarrow> (error + 'b) \<times> 'st" where
  "bindE m f = (case m of (Inl e, st) \<Rightarrow> (Inl e, st) | (Inr a, st) \<Rightarrow> f a st)"

text \<open>
  The class \<^verbatim>\<open>Cursor\<close>: \<^verbatim>\<open>execute\<close> turns every psycopg error into a
  \<^verbatim>\<open>DocumentStoreError\<close>.
\<close>

definition Cursor_execute :: "pg_call \<Rightarrow> pg_state \<Rightarrow> (error + pg_result) \<times> pg_state" where
  "Cursor_execute c st =
     (case pg_execute c (snd st) of
        (Inl e, w) \<Rightarrow> (Inl DocumentStoreError, (fst st, w))
      | (Inr r, w) \<Rightarrow> (Inr r, (fst st, w)))"

text \<open>\<^verbatim>\<open>bool(cursor.execute(...).fetchone())\<close> on the result of an existence query.\<close>

fun fetched :: "pg_result \<Rightarrow> bool" where
  "fetched (Flag b) = b"
| "fetched r = False"

fun rows_of :: "pg_result \<Rightarrow> (db_document \<times> float8 option) list" where
  "rows_of (Rows rs) = rs"
| "rows_of r = []"

fun result_sets :: "pg_result \<Rightarrow> string list list" where
  "result_sets (ResultSets ress) = ress"
| "result_sets r = []"

text \<open>
  \<^verbatim>\<open>_create_connection\<close>: \<^verbatim>\<open>connect\<close> and the \<^verbatim>\<open>CREATE EXTENSION\<close> statement go to
  psycopg directly, so their errors are psycopg's. The connection returned is the handle
  of the newly opened connection.
\<close>

definition create_connection :: "pg_state \<Rightarrow> (error + nat) \<times> pg_state" where
  "create_connection st =
     (case pg_execute (Connect (connection_string (fst st))) (snd st) of
        (Inl e, w1) \<Rightarrow> (Inl (PsycopgError e), (fst st, w1))
      | (Inr r1, w1) \<Rightarrow>
          (case pg_execute CreateExtension w1 of
             (Inl e, w2) \<Rightarrow> (Inl (PsycopgError e), (fst st, w2))
           | (Inr r2, w2) \<Rightarrow> (Inr (db_connections w1 - 1), (fst st, w2))))"

text \<open>
  \<^verbatim>\<open>delete_table\<close>, \<^verbatim>\<open>_create_hnsw_index\<close>, \<^verbatim>\<open>_handle_hnsw\<close> and \<^verbatim>\<open>_init_schema\<close> as they
  run from \<^verbatim>\<open>_init_schema\<close>: there \<^verbatim>\<open>_connection\<close> is set and
  \<^verbatim>\<open>_schema_is_initialized\<close> is already \<^verbatim>\<open>True\<close> (both callers of \<^verbatim>\<open>_init_schema\<close> set
  them first), so \<^verbatim>\<open>self.cursor()\<close> only wraps the connection.
\<close>

definition delete_table_connected :: "pg_state \<Rightarrow> (error + unit) \<times> pg_state" where
  "delete_table_connected st =
     bindE (Cursor_execute (DropTable (table_name (fst st))) st) (\<lambda>r st1. (Inr (), st1))"

definition VECTOR_FUNCTION_TO_POSTGRESQL_OPS :: "(string \<times> string) list" where
  "VECTOR_FUNCTION_TO_POSTGRESQL_OPS =
     [(''cosine_similarity'', ''vector_cosine_ops''),
      (''inner_product'', ''vector_ip_ops''),
      (''l2_distance'', ''vector_l2_ops'')]"

definition HNSW_INDEX_CREATION_VALID_KWARGS :: "string list" where
  "HNSW_INDEX_CREATION_VALID_KWARGS = [''m'', ''ef_construction'']"

definition create_hnsw_index :: "pg_state \<Rightarrow> (error + unit) \<times> pg_state" where
  "create_hnsw_index st =
     (case map_of VECTOR_FUNCTION_TO_POSTGRESQL_OPS (vector_function (fst st)) of
        None \<Rightarrow> (Inl KeyError, st)
      | Some pg_ops \<Rightarrow>
          (let actual_hnsw_index_creation_kwargs =
                 filter (\<lambda>kv. fst kv \<in> set HNSW_INDEX_CREATION_VALID_KWARGS)
                   (hnsw_index_creation_kwargs (fst st))
           in bindE (Cursor_execute
                       (CreateIndex (table_name (fst st)) (hnsw_index_name (fst st))
                          (Hnsw pg_ops actual_hnsw_index_creation_kwargs)) st)
                (\<lambda>r st1. (Inr (), st1))))"

definition HNSW_WARNING :: string where
  "HNSW_WARNING = ''HNSW index already exists and won't be recreated. ''
     @ ''If you want to recreate it, pass 'hnsw_recreate_index_if_exists=True' to the ''
     @ ''Document Store constructor''"

definition handle_hnsw :: "pg_state \<Rightarrow> (error + unit) \<times> pg_state" where
  "handle_hnsw st =
     bindE (case hnsw_ef_search (fst st) of
              None \<Rightarrow> (Inr NoResult, st)
            | Some ef \<Rightarrow>
                if ef \<noteq> 0 then Cursor_execute (SetHnswEfSearch ef) st else (Inr NoResult, st))
       (\<lambda>r0 st1.
          bindE (Cursor_execute
                   (SelectIndexExists (table_name (fst st1)) (hnsw_index_name (fst st1))) st1)
            (\<lambda>r st2.
               if fetched r \<and> \<not> hnsw_recreate_index_if_exists (fst st2) then
                 (Inr (), (fst st2, (snd st2)\<lparr>warnings := warnings (snd st2) @ [HNSW_WARNING]\<rparr>))
               else
                 bindE (Cursor_execute (DropIndex (hnsw_index_name (fst st2))) st2)
                   (\<lambda>r3 st3. create_hnsw_index st3)))"

definition init_schema :: "pg_state \<Rightarrow> (error + unit) \<times> pg_state" where
  "init_schema st =
     bindE (if recreate_table (fst st) then delete_table_connected st else (Inr (), st))
       (\<lambda>u st1.
          bindE (Cursor_execute (CreateTable (embedding_dimension (fst st1))) st1)
            (\<lambda>r1 st2.
               bindE (Cursor_execute
                        (SelectIndexExists (table_name (fst st2)) (keyword_index_name (fst st2)))
                        st2)
                 (\<lambda>r2 st3.
                    bindE (if \<not> fetched r2 then
                             Cursor_execute
                               (CreateIndex (table_name (fst st3)) (keyword_index_name (fst st3))
                                  (Gin (language (fst st3)))) st3
                           else (Inr NoResult, st3))
                      (\<lambda>r3 st4.
                         if search_strategy (fst st4) = ''hnsw'' then handle_hnsw st4
                         else (Inr (), st4)))))"

text \<open>
  The block \<^verbatim>\<open>if not self._schema_is_initialized: ...\<close>, which the \<^verbatim>\<open>connection\<close>
  property and the wrapper of \<^verbatim>\<open>__getattr__\<close> both hold: the flag is raised before the
  schema is initialised and stays raised when the initialisation fails.
\<close>

definition ensure_schema :: "pg_state \<Rightarrow> (error + unit) \<times> pg_state" where
  "ensure_schema st =
     (if \<not> p_schema_is_initialized (fst st)
      then init_schema ((fst st)\<lparr>p_schema_is_initialized := True\<rparr>, snd st)
      else (Inr (), st))"

text \<open>The property \<^verbatim>\<open>connection\<close>.\<close>

definition connection :: "pg_state \<Rightarrow> (error + nat) \<times> pg_state" where
  "connection st =
     bindE (case p_connection (fst st) of
              None \<Rightarrow>
                bindE (create_connection st)
                  (\<lambda>c st1. (Inr c, ((fst st1)\<lparr>p_connection := Some c\<rparr>, snd st1)))
            | Some c \<Rightarrow> (Inr c, st))
       (\<lambda>c st1. bindE (ensure_schema st1) (\<lambda>u st2. (Inr c, st2)))"

text \<open>
  \<^verbatim>\<open>delete_table\<close> as a caller reaches it: \<^verbatim>\<open>self.cursor()\<close> evaluates the property
  first.
\<close>

definition delete_table :: "pg_state \<Rightarrow> (error + unit) \<times> pg_state" where
  "delete_table st = bindE (connection st) (\<lambda>c st1. delete_table_connected st1)"

text \<open>
  \<^verbatim>\<open>__getattr__\<close>: the method it returns for a name \<^verbatim>\<open>item\<close> whose
  \<^verbatim>\<open>_connected_item\<close> exists. \<open>private_method\<close> is that method with its arguments. The
  \<^verbatim>\<open>with\<close> block ends the connection with a commit (after a normal end) or a rollback
  (after an exception) and closes it; the \<^verbatim>\<open>finally\<close> clause puts the old connection
  back on every path.
\<close>

definition connection_exit :: "bool \<Rightarrow> pg_state \<Rightarrow> pg_state" where
  "connection_exit ok st =
     (fst st, note_call Close (note_call (if ok then Commit else Rollback) (snd st)))"

definition connected_method ::
  "(pg_state \<Rightarrow> (error + 'a) \<times> pg_state) \<Rightarrow> pg_state \<Rightarrow> (error + 'a) \<times> pg_state" where
  "connected_method private_method st =
     (let old_connection = p_connection (fst st)
      in case create_connection st of
           (Inl e, st1) \<Rightarrow> (Inl e, ((fst st1)\<lparr>p_connection := old_connection\<rparr>, snd st1))
         | (Inr conn, st1) \<Rightarrow>
             (case bindE (ensure_schema ((fst st1)\<lparr>p_connection := Some conn\<rparr>, snd st1))
                     (\<lambda>u st2.
                        bindE (private_method st2)
                          (\<lambda>result st3. (Inr result, (fst st3, note_call Commit (snd st3))))) of
                (Inl e, st4) \<Rightarrow>
                  (Inl e, ((fst (connection_exit False st4))\<lparr>p_connection := old_connection\<rparr>,
                           snd (connection_exit False st4)))
              | (Inr result, st4) \<Rightarrow>
                  (Inr result,
                   ((fst (connection_exit True st4))\<lparr>p_connection := old_connection\<rparr>,
                    snd (connection_exit True st4)))))"

section \<open>The pgvector store: writing and reading documents\<close>

text \<open>
  \<^verbatim>\<open>_from_haystack_to_pg_documents\<close>: the parameter dictionary of a document. The keys
  \<^verbatim>\<open>score\<close>, \<^verbatim>\<open>blob\<close> and \<^verbatim>\<open>sparse_embedding\<close> are dropped; an empty blob metadata
  dictionary, an empty mime type and an empty dataframe become null. An element without
  \<^verbatim>\<open>to_dict\<close> raises \<^verbatim>\<open>AttributeError\<close>. (The warning about a sparse embedding is
  logging only and is left out, as are the debug messages.)
\<close>

definition to_db_document :: "Document \<Rightarrow> db_document" where
  "to_db_document document =
     \<lparr> r_id = doc_id document,
       r_embedding = embedding document,
       r_content = content document,
       r_dataframe =
         (case dataframe document of None \<Rightarrow> None | Some df \<Rightarrow> if df \<noteq> [] then Some df else None),
       r_blob_data = (case blob document of None \<Rightarrow> None | Some b \<Rightarrow> Some (bs_data b)),
       r_blob_meta =
         (case blob document of
            None \<Rightarrow> None
          | Some b \<Rightarrow> if bs_meta b \<noteq> [] then Some (bs_meta b) else None),
       r_blob_mime_type =
         (case blob document of
            None \<Rightarrow> None
          | Some b \<Rightarrow>
              (case bs_mime_type b of
                 None \<Rightarrow> None
               | Some m \<Rightarrow> if m \<noteq> [] then Some m else None)),
       r_meta = meta document \<rparr>"

fun from_haystack_to_pg_documents :: "element list \<Rightarrow> error + db_document list" where
  "from_haystack_to_pg_documents [] = Inr []"
| "from_haystack_to_pg_documents (Obj a # documents) = Inl AttributeError"
| "from_haystack_to_pg_documents (Doc document # documents) =
     (case from_haystack_to_pg_documents documents of
        Inl e \<Rightarrow> Inl e
      | Inr db_documents \<Rightarrow> Inr (to_db_document document # db_documents))"

text \<open>
  \<^verbatim>\<open>_from_pg_to_haystack_documents\<close>: a record of a \<^verbatim>\<open>SELECT\<close> (a row, and the score
  column when the statement has one) back to a \<^verbatim>\<open>Document\<close>. The blob is rebuilt only
  from non-empty blob data; a null embedding stays \<^verbatim>\<open>None\<close>.
\<close>

definition from_pg_to_haystack_document :: "db_document \<times> float8 option \<Rightarrow> Document" where
  "from_pg_to_haystack_document rec =
     \<lparr> doc_id = r_id (fst rec),
       content = r_content (fst rec),
       dataframe = r_dataframe (fst rec),
       blob =
         (case r_blob_data (fst rec) of
            None \<Rightarrow> None
          | Some blob_data \<Rightarrow>
              if blob_data \<noteq> [] then
                Some \<lparr> bs_data = blob_data,
                       bs_meta = (case r_blob_meta (fst rec) of None \<Rightarrow> [] | Some m \<Rightarrow> m),
                       bs_mime_type = r_blob_mime_type (fst rec) \<rparr>
              else None),
       meta = r_meta (fst rec),
       score = snd rec,
       embedding = r_embedding (fst rec),
       sparse_embedding = None \<rparr>"

definition from_pg_to_haystack_documents ::
  "(db_document \<times> float8 option) list \<Rightarrow> Document list" where
  "from_pg_to_haystack_documents records = map from_pg_to_haystack_document records"

text \<open>
  The statement of a write: \<^verbatim>\<open>INSERT_STATEMENT\<close>, then \<^verbatim>\<open>UPDATE_STATEMENT\<close> under
  \<^verbatim>\<open>OVERWRITE\<close> or \<^verbatim>\<open>ON CONFLICT DO NOTHING\<close> under \<^verbatim>\<open>SKIP\<close>, then
  \<^verbatim>\<open>RETURNING id\<close>. \<open>write_conflict_action\<close> is the same choice as the server reads it.
\<close>

definition INSERT_STATEMENT :: "string \<Rightarrow> string" where
  "INSERT_STATEMENT tab =
     nl @ ''INSERT INTO '' @ tab @ nl
     @ ''(id, embedding, content, dataframe, blob_data, blob_meta, blob_mime_type, meta)'' @ nl
     @ ''VALUES (%(id)s, %(embedding)s, %(content)s, %(dataframe)s, %(blob_data)s, ''
     @ ''%(blob_meta)s, %(blob_mime_type)s, %(meta)s)'' @ nl"

definition UPDATE_STATEMENT :: string where
  "UPDATE_STATEMENT =
     nl @ ''ON CONFLICT (id) DO UPDATE SET'' @ nl
     @ ''embedding = EXCLUDED.embedding,'' @ nl
     @ ''content = EXCLUDED.content,'' @ nl
     @ ''dataframe = EXCLUDED.dataframe,'' @ nl
     @ ''blob_data = EXCLUDED.blob_data,'' @ nl
     @ ''blob_meta = EXCLUDED.blob_meta,'' @ nl
     @ ''blob_mime_type = EXCLUDED.blob_mime_type,'' @ nl
     @ ''meta = EXCLUDED.meta'' @ nl"

definition write_documents_sql :: "PgvectorDocumentStore \<Rightarrow> DuplicatePolicy \<Rightarrow> string" where
  "write_documents_sql s policy =
     INSERT_STATEMENT (qualified_table s)
     @ (if policy = OVERWRITE then UPDATE_STATEMENT
        else if policy = SKIP then ''ON CONFLICT DO NOTHING'' else [])
     @ '' RETURNING id''"

definition write_conflict_action :: "DuplicatePolicy \<Rightarrow> conflict_action" where
  "write_conflict_action policy =
     (if policy = OVERWRITE then OnConflictDoUpdate
      else if policy = SKIP then OnConflictDoNothing
      else NoConflictClause)"

text \<open>
  The loop that counts the written documents: \<^verbatim>\<open>fetchone\<close> on the current result set,
  then \<^verbatim>\<open>nextset\<close>, until there is no next set. On a cursor with no result set at all
  (the batch was empty) \<^verbatim>\<open>fetchone\<close> raises psycopg's \<^verbatim>\<open>ProgrammingError\<close>; the loop is
  outside the \<^verbatim>\<open>try\<close>, so the error is not translated.
\<close>

fun count_result_sets :: "string list list \<Rightarrow> nat \<Rightarrow> nat" where
  "count_result_sets [] written_docs = written_docs"
| "count_result_sets (current # following) written_docs =
     count_result_sets following (if current \<noteq> [] then written_docs + 1 else written_docs)"

definition count_written_docs :: "string list list \<Rightarrow> error + nat" where
  "count_written_docs ress =
     (if ress = [] then Inl (PsycopgError ProgrammingError) else Inr (count_result_sets ress 0))"

text \<open>
  \<^verbatim>\<open>_connected_write_documents\<close>. The method reads the property \<^verbatim>\<open>connection\<close> up to
  three times; after the first successful read the property returns the connection
  without any effect (lemma \<open>connection_again\<close>), so it is read once here. The
  \<^verbatim>\<open>executemany\<close> goes to a psycopg cursor directly: an \<^verbatim>\<open>IntegrityError\<close> becomes
  \<^verbatim>\<open>DuplicateDocumentError\<close>, any other psycopg error \<^verbatim>\<open>DocumentStoreError\<close>, each after
  \<^verbatim>\<open>rollback\<close>.
\<close>

definition connected_write_documents ::
  "element list \<Rightarrow> DuplicatePolicy \<Rightarrow> pg_state \<Rightarrow> (error + nat) \<times> pg_state" where
  "connected_write_documents documents policy st =
     (if documents \<noteq> [] \<and> \<not> isinstance_Document (hd documents) then (Inl ValueError, st)
      else
        (let policy1 = (if policy = NONE then FAIL else policy)
         in case from_haystack_to_pg_documents documents of
              Inl e \<Rightarrow> (Inl e, st)
            | Inr db_documents \<Rightarrow>
                bindE (connection st)
                  (\<lambda>c st1.
                     case pg_execute (InsertMany (write_conflict_action policy1) db_documents)
                            (snd st1) of
                       (Inl e, w) \<Rightarrow>
                         (Inl (if e = IntegrityError then DuplicateDocumentError
                               else DocumentStoreError),
                          (fst st1, note_call Rollback w))
                     | (Inr r, w) \<Rightarrow>
                         (case count_written_docs (result_sets r) of
                            Inl e \<Rightarrow> (Inl e, (fst st1, w))
                          | Inr written_docs \<Rightarrow> (Inr written_docs, (fst st1, w))))))"

text \<open>
  \<^verbatim>\<open>write_documents\<close> is not defined in the class: the name reaches \<^verbatim>\<open>__getattr__\<close>,
  which wraps \<^verbatim>\<open>_connected_write_documents\<close>. The policy defaults to \<^verbatim>\<open>NONE\<close>.
\<close>

definition write_documents ::
  "element list \<Rightarrow> DuplicatePolicy \<Rightarrow> pg_state \<Rightarrow> (error + nat) \<times> pg_state" where
  "write_documents documents policy st =
     connected_method (connected_write_documents documents policy) st"

text \<open>
  The \<^verbatim>\<open>filters\<close> argument of a read: \<^verbatim>\<open>None\<close>, a dictionary (only its keys matter to
  the store, the values belong to the filter compiler) or any other object, of which
  only its truth value matters.
\<close>

datatype 'v pyfilters = FiltersNone | FiltersDict "(string \<times> 'v) list" | FiltersOther bool

fun truthy :: "'v pyfilters \<Rightarrow> bool" where
  "truthy FiltersNone = False"
| "truthy (FiltersDict kvs) = (kvs \<noteq> [])"
| "truthy (FiltersOther b) = b"

fun isinstance_dict :: "'v pyfilters \<Rightarrow> bool" where
  "isinstance_dict (FiltersDict kvs) = True"
| "isinstance_dict f = False"

fun has_key :: "string \<Rightarrow> 'v pyfilters \<Rightarrow> bool" where
  "has_key k (FiltersDict kvs) = (k \<in> fst ` set kvs)"
| "has_key k f = False"

text \<open>
  The filter compiler \<^verbatim>\<open>_convert_filters_to_where_clause_and_params\<close> is imported from
  \<^verbatim>\<open>filters.py\<close>, which is not among the files: it is the parameter \<open>conv\<close>, from the
  filters and the leading keyword (\<^verbatim>\<open>WHERE\<close> by default, \<^verbatim>\<open>AND\<close> in the keyword search)
  to the clause text with its parameters, or an exception.
\<close>

type_synonym 'v filter_compiler = "'v pyfilters \<Rightarrow> string \<Rightarrow> error + (string \<times> pyval list)"

definition compile_filters ::
  "'v filter_compiler \<Rightarrow> 'v pyfilters \<Rightarrow> string \<Rightarrow> error + (string \<times> pyval list) option" where
  "compile_filters conv filters operator =
     (if truthy filters then
        (case conv filters operator of Inl e \<Rightarrow> Inl e | Inr cp \<Rightarrow> Inr (Some cp))
      else Inr None)"

definition filter_documents ::
  "'v filter_compiler \<Rightarrow> 'v pyfilters \<Rightarrow> pg_state \<Rightarrow> (error + Document list) \<times> pg_state" where
  "filter_documents conv filters st =
     (if truthy filters \<and> \<not> isinstance_dict filters then (Inl TypeError, st)
      else if truthy filters \<and> \<not> has_key ''operator'' filters
              \<and> \<not> has_key ''conditions'' filters then (Inl ValueError, st)
      else
        (case compile_filters conv filters ''WHERE'' of
           Inl e \<Rightarrow> (Inl e, st)
         | Inr cond \<Rightarrow>
             bindE (connection st)
               (\<lambda>c st1.
                  bindE (Cursor_execute (SelectAll cond) st1)
                    (\<lambda>r st2. (Inr (from_pg_to_haystack_documents (rows_of r)), st2)))))"

definition keyword_retrieval ::
  "'v filter_compiler \<Rightarrow> string \<Rightarrow> 'v pyfilters \<Rightarrow> int \<Rightarrow> pg_state
   \<Rightarrow> (error + Document list) \<times> pg_state" where
  "keyword_retrieval conv query filters top_k st =
     (if query = [] then (Inl ValueError, st)
      else
        (case compile_filters conv filters ''AND'' of
           Inl e \<Rightarrow> (Inl e, st)
         | Inr cond \<Rightarrow>
             bindE (connection st)
               (\<lambda>c st1.
                  bindE (Cursor_execute (SelectKeyword (language (fst st1)) query cond top_k) st1)
                    (\<lambda>r st2. (Inr (from_pg_to_haystack_documents (rows_of r)), st2)))))"

text \<open>
  \<^verbatim>\<open>_embedding_retrieval\<close>. \<open>score_expr_of\<close> and \<open>sort_order_of\<close> are the two choices the
  method makes from the vector function, as the server reads them (their text is
  \<open>score_definition\<close> and \<open>sort_order\<close>).
\<close>

definition score_expr_of :: "string \<Rightarrow> error + score_expr" where
  "score_expr_of vf =
     (if vf = ''cosine_similarity'' then Inr OneMinusCosineDistance
      else if vf = ''inner_product'' then Inr InnerProductTimesMinusOne
      else if vf = ''l2_distance'' then Inr L2Distance
      else Inl UnboundLocalError)"

definition sort_order_of :: "string \<Rightarrow> order_dir" where
  "sort_order_of vf = (if vf = ''l2_distance'' then ASC else DESC)"

definition embedding_retrieval ::
  "'v filter_compiler \<Rightarrow> real list \<Rightarrow> 'v pyfilters \<Rightarrow> int \<Rightarrow> string option \<Rightarrow> pg_state
   \<Rightarrow> (error + Document list) \<times> pg_state" where
  "embedding_retrieval conv query_embedding filters top_k vector_function_arg st =
     (if query_embedding = [] then (Inl ValueError, st)
      else if length query_embedding \<noteq> embedding_dimension (fst st) then (Inl ValueError, st)
      else
        (let vf = (case vector_function_arg of
                     None \<Rightarrow> vector_function (fst st)
                   | Some f \<Rightarrow> if f \<noteq> [] then f else vector_function (fst st))
         in if vf \<notin> set VALID_VECTOR_FUNCTIONS then (Inl ValueError, st)
            else
              (case score_expr_of vf of
                 Inl e \<Rightarrow> (Inl e, st)
               | Inr ex \<Rightarrow>
                   (case compile_filters conv filters ''WHERE'' of
                      Inl e \<Rightarrow> (Inl e, st)
                    | Inr cond \<Rightarrow>
                        bindE (connection st)
                          (\<lambda>c st1.
                             bindE (Cursor_execute
                                      (SelectEmbedding ex query_embedding cond (sort_order_of vf)
                                         top_k) st1)
                               (\<lambda>r st2.
                                  (Inr (from_pg_to_haystack_documents (rows_of r)), st2)))))))"

section \<open>The Azure AI Search store: the service as the SDK shows it\<close>

text \<open>
  A Python dictionary with string keys, in insertion order; \<open>dict_set\<close> is the
  assignment \<^verbatim>\<open>d[k] = v\<close> and \<open>dict_update\<close> a sequence of assignments.
\<close>

fun dict_set :: "string \<Rightarrow> 'v \<Rightarrow> (string \<times> 'v) list \<Rightarrow> (string \<times> 'v) list" where
  "dict_set k v [] = [(k, v)]"
| "dict_set k v (kv # d) = (if fst kv = k then (k, v) # d else kv # dict_set k v d)"

definition dict_update :: "(string \<times> 'v) list \<Rightarrow> (string \<times> 'v) list \<Rightarrow> (string \<times> 'v) list" where
  "dict_update d items = fold (\<lambda>kv acc. dict_set (fst kv) (snd kv) acc) items d"

text \<open>
  An index of the service: the names of its fields and its documents by key. A document
  of an index is a dictionary from field names to values.
\<close>

type_synonym index_document = "(string \<times> pyval) list"

record azure_index =
  ix_fields :: "string list"
  ix_documents :: "(string \<times> index_document) list"

datatype azure_request =
    ListIndexNames
  | CreateSearchIndex string "string list"
  | GetDocument string string
  | GetDocumentCount string
  | SearchAll string nat
  | MergeOrUpload string "index_document list"

record azure_world =
  az_indexes :: "(string \<times> azure_index) list"
  az_requests :: "azure_request list"

definition az_note :: "azure_request \<Rightarrow> azure_world \<Rightarrow> azure_world" where
  "az_note rq w = w\<lparr>az_requests := az_requests w @ [rq]\<rparr>"

definition index_documents :: "azure_world \<Rightarrow> string \<Rightarrow> (string \<times> index_document) list" where
  "index_documents w name =
     (case map_of (az_indexes w) name of None \<Rightarrow> [] | Some ix \<Rightarrow> ix_documents ix)"

text \<open>
  The operations of the SDK the store uses, from the SDK's documentation. A missing index
  or document is the SDK's \<^verbatim>\<open>ResourceNotFoundError\<close>; a request the service refuses is
  \<^verbatim>\<open>HttpResponseError\<close>. The key of a lookup is formatted into the request with
  \<^verbatim>\<open>str\<close>.
\<close>

definition sdk_list_index_names :: "azure_world \<Rightarrow> string list \<times> azure_world" where
  "sdk_list_index_names w = (map fst (az_indexes w), az_note ListIndexNames w)"

definition sdk_create_index ::
  "string \<Rightarrow> string list \<Rightarrow> azure_world \<Rightarrow> (azure_error + unit) \<times> azure_world" where
  "sdk_create_index name field_names w =
     (let w1 = az_note (CreateSearchIndex name field_names) w
      in if name = [] \<or> name \<in> fst ` set (az_indexes w) then (Inl HttpResponseError, w1)
         else (Inr (),
               w1\<lparr>az_indexes :=
                     az_indexes w1 @ [(name, \<lparr>ix_fields = field_names, ix_documents = []\<rparr>)]\<rparr>))"

definition sdk_get_document ::
  "string \<Rightarrow> string \<Rightarrow> azure_world \<Rightarrow> (azure_error + index_document) \<times> azure_world" where
  "sdk_get_document name key w =
     (case map_of (index_documents w name) key of
        None \<Rightarrow> (Inl ResourceNotFoundError, az_note (GetDocument name key) w)
      | Some d \<Rightarrow> (Inr d, az_note (GetDocument name key) w))"

definition sdk_get_document_count ::
  "string \<Rightarrow> azure_world \<Rightarrow> (azure_error + nat) \<times> azure_world" where
  "sdk_get_document_count name w =
     (case map_of (az_indexes w) name of
        None \<Rightarrow> (Inl ResourceNotFoundError, az_note (GetDocumentCount name) w)
      | Some ix \<Rightarrow> (Inr (length (ix_documents ix)), az_note (GetDocumentCount name) w))"

definition sdk_search_all ::
  "string \<Rightarrow> nat \<Rightarrow> azure_world \<Rightarrow> (azure_error + index_document list) \<times> azure_world" where
  "sdk_search_all name top_n w =
     (case map_of (az_indexes w) name of
        None \<Rightarrow> (Inl ResourceNotFoundError, az_note (SearchAll name top_n) w)
      | Some ix \<Rightarrow> (Inr (take top_n (map snd (ix_documents ix))), az_note (SearchAll name top_n) w))"

text \<open>
  \<^verbatim>\<open>merge_or_upload_documents\<close>: one request for the whole batch. The service refuses
  the request, and writes nothing, when a document names a field the index does not
  have or has no string key in the key field \<^verbatim>\<open>id\<close>. Otherwise each document, in
  order, is merged into the stored document with its key (the fields it names replace
  the stored ones, the other stored fields stay) or, when there is none, uploaded.
\<close>

definition document_key :: "index_document \<Rightarrow> string option" where
  "document_key d = (case map_of d ''id'' of Some (PyStr k) \<Rightarrow> Some k | _ \<Rightarrow> None)"

definition merge_or_upload ::
  "index_document \<Rightarrow> (string \<times> index_document) list \<Rightarrow> (string \<times> index_document) list" where
  "merge_or_upload d docs =
     (case document_key d of
        None \<Rightarrow> docs
      | Some k \<Rightarrow>
          (case map_of docs k of
             None \<Rightarrow> docs @ [(k, d)]
           | Some old \<Rightarrow> dict_set k (dict_update old d) docs))"

definition accepted_document :: "string list \<Rightarrow> index_document \<Rightarrow> bool" where
  "accepted_document field_names d = (document_key d \<noteq> None \<and> fst ` set d \<subseteq> set field_names)"

definition sdk_merge_or_upload_documents ::
  "string \<Rightarrow> index_document list \<Rightarrow> azure_world \<Rightarrow> (azure_error + unit) \<times> azure_world" where
  "sdk_merge_or_upload_documents name ds w =
     (let w1 = az_note (MergeOrUpload name ds) w
      in case map_of (az_indexes w) name of
           None \<Rightarrow> (Inl ResourceNotFoundError, w1)
         | Some ix \<Rightarrow>
             if \<not> list_all (accepted_document (ix_fields ix)) ds then (Inl HttpResponseError, w1)
             else (Inr (),
                   w1\<lparr>az_indexes :=
                         dict_set name
                           (ix\<lparr>ix_documents := fold merge_or_upload ds (ix_documents ix)\<rparr>)
                           (az_indexes w1)\<rparr>))"

section \<open>The Azure AI Search store: the class\<close>

text \<open>
  The attributes of an instance. \<open>a_index_client\<close> says whether \<^verbatim>\<open>_index_client\<close> has been
  created; \<open>a_dummy_vector\<close> is \<open>None\<close> while the attribute \<^verbatim>\<open>_dummy_vector\<close> does not
  exist: \<^verbatim>\<open>__init__\<close> does not set it, only \<^verbatim>\<open>_default_index_mapping\<close> does.
\<close>

datatype pytype = Tstr | Tbool | Tint | Tfloat | Tother

record AzureAISearchDocumentStore =
  a_index_client :: bool
  a_index_fields :: "string list option"
  a_api_key :: string
  a_azure_endpoint :: string
  a_index_name :: string
  a_embedding_dimension :: nat
  a_metadata_fields :: "(string \<times> pytype) list option"
  a_create_index :: bool
  a_dummy_vector :: "real list option"

type_synonym az_state = "AzureAISearchDocumentStore \<times> azure_world"

definition azure_init ::
  "string \<Rightarrow> string \<Rightarrow> string \<Rightarrow> nat \<Rightarrow> (string \<times> pytype) list option \<Rightarrow> bool
   \<Rightarrow> error + AzureAISearchDocumentStore" where
  "azure_init api_key azure_endpoint index_name edim metadata_fields create_index_flag =
     (if azure_endpoint = [] then Inl ValueError
      else if api_key = [] then Inl ValueError
      else Inr \<lparr> a_index_client = False, a_index_fields = None, a_api_key = api_key,
                 a_azure_endpoint = azure_endpoint, a_index_name = index_name,
                 a_embedding_dimension = edim, a_metadata_fields = metadata_fields,
                 a_create_index = create_index_flag, a_dummy_vector = None \<rparr>)"

text \<open>
  \<^verbatim>\<open>_map_metadata_field_types\<close> with \<^verbatim>\<open>type_mapping\<close>, and the names of the fields
  \<^verbatim>\<open>_create_metadata_index_fields\<close> makes of it.
\<close>

fun type_mapping :: "pytype \<Rightarrow> string option" where
  "type_mapping Tstr = Some ''Edm.String''"
| "type_mapping Tbool = Some ''Edm.Boolean''"
| "type_mapping Tint = Some ''Edm.Int32''"
| "type_mapping Tfloat = Some ''Edm.Double''"
| "type_mapping Tother = None"

fun map_metadata_field_types ::
  "(string \<times> pytype) list \<Rightarrow> (string \<times> string) list \<Rightarrow> error + (string \<times> string) list" where
  "map_metadata_field_types [] metadata_field_mapping = Inr metadata_field_mapping"
| "map_metadata_field_types (kt # metadata) metadata_field_mapping =
     (case type_mapping (snd kt) of
        None \<Rightarrow> Inl ValueError
      | Some field_type \<Rightarrow>
          map_metadata_field_types metadata
            (dict_set (fst kt) field_type metadata_field_mapping))"

definition create_metadata_index_fields :: "(string \<times> pytype) list \<Rightarrow> error + string list" where
  "create_metadata_index_fields metadata =
     (case map_metadata_field_types metadata [] of
        Inl e \<Rightarrow> Inl e
      | Inr metadata_field_mapping \<Rightarrow> Inr (map fst metadata_field_mapping))"

text \<open>\<^verbatim>\<open>create_index\<close> and \<^verbatim>\<open>index_exists\<close>, and the property \<^verbatim>\<open>client\<close>.\<close>

definition create_index :: "string \<Rightarrow> az_state \<Rightarrow> (error + unit) \<times> az_state" where
  "create_index index_name st =
     (let default_fields = [''id'', ''content'', ''embedding''];
          name = (if index_name = [] then a_index_name (fst st) else index_name)
      in case (case a_metadata_fields (fst st) of
                 None \<Rightarrow> Inr default_fields
               | Some mf \<Rightarrow>
                   if mf = [] then Inr default_fields
                   else (case create_metadata_index_fields mf of
                           Inl e \<Rightarrow> Inl e
                         | Inr fs \<Rightarrow> Inr (default_fields @ fs))) of
           Inl e \<Rightarrow> (Inl e, st)
         | Inr field_names \<Rightarrow>
             (case sdk_create_index name field_names (snd st) of
                (Inl e, w) \<Rightarrow> (Inl (AzureSdkError e), ((fst st)\<lparr>a_index_fields := Some field_names\<rparr>, w))
              | (Inr u, w) \<Rightarrow> (Inr (), ((fst st)\<lparr>a_index_fields := Some field_names\<rparr>, w))))"

definition index_exists :: "string \<Rightarrow> az_state \<Rightarrow> bool \<times> az_state" where
  "index_exists index_name st =
     (if a_index_client (fst st) \<and> index_name \<noteq> [] then
        (case sdk_list_index_names (snd st) of
           (names, w) \<Rightarrow> (index_name \<in> set names, (fst st, w)))
      else (False, st))"

definition client :: "az_state \<Rightarrow> (error + unit) \<times> az_state" where
  "client st =
     (let st1 = ((fst st)\<lparr>a_index_client := True\<rparr>, snd st)
      in case index_exists (a_index_name (fst st1)) st1 of
           (True, st2) \<Rightarrow> (Inr (), st2)
         | (False, st2) \<Rightarrow> create_index (a_index_name (fst st2)) st2)"

text \<open>
  \<^verbatim>\<open>_default_index_mapping\<close> on \<^verbatim>\<open>asdict(document)\<close>: the keys \<^verbatim>\<open>id\<close>, \<^verbatim>\<open>content\<close> and
  \<^verbatim>\<open>embedding\<close> stay, every metadata key is assigned on top of them, and a null
  embedding is replaced by the vector of \<^verbatim>\<open>-10.0\<close>, which is also stored in
  \<^verbatim>\<open>_dummy_vector\<close>.
\<close>

fun pyval_of_id :: "pyid \<Rightarrow> pyval" where
  "pyval_of_id (StrId s) = PyStr s"
| "pyval_of_id (IntId i) = PyInt i"

definition default_index_mapping ::
  "Document \<Rightarrow> AzureAISearchDocumentStore \<Rightarrow> index_document \<times> AzureAISearchDocumentStore" where
  "default_index_mapping document s =
     (let index_document =
            dict_update
              [(''id'', pyval_of_id (doc_id document)),
               (''content'', case content document of None \<Rightarrow> PyNone | Some c \<Rightarrow> PyStr c),
               (''embedding'', case embedding document of None \<Rightarrow> PyNone | Some v \<Rightarrow> PyVec v)]
              (meta document)
      in if map_of index_document ''embedding'' = Some PyNone then
           (let dummy_vector = replicate (a_embedding_dimension s) (- 10)
            in (dict_set ''embedding'' (PyVec dummy_vector) index_document,
                s\<lparr>a_dummy_vector := Some dummy_vector\<rparr>))
         else (index_document, s))"

text \<open>
  \<^verbatim>\<open>_convert_input_document\<close>, the local function of \<^verbatim>\<open>write_documents\<close>: \<^verbatim>\<open>asdict\<close>
  raises \<^verbatim>\<open>TypeError\<close> on an object that is not a dataclass instance, and an id that is
  not a string raises \<^verbatim>\<open>Exception\<close>.
\<close>

fun convert_input_document :: "element \<Rightarrow> az_state \<Rightarrow> (error + index_document) \<times> az_state" where
  "convert_input_document (Obj a) st = (Inl TypeError, st)"
| "convert_input_document (Doc document) st =
     (case doc_id document of
        IntId i \<Rightarrow> (Inl PyException, st)
      | StrId k \<Rightarrow>
          (case default_index_mapping document (fst st) of
             (index_document, s1) \<Rightarrow> (Inr index_document, (s1, snd st))))"

fun attr_id :: "element \<Rightarrow> pyid option" where
  "attr_id (Doc document) = Some (doc_id document)"
| "attr_id (Obj a) = a"

text \<open>
  One round of the loop of \<^verbatim>\<open>write_documents\<close>. \<^verbatim>\<open>self.client\<close> is evaluated before
  \<^verbatim>\<open>doc.id\<close>. A document that exists is skipped under \<^verbatim>\<open>SKIP\<close>, fails the call under
  \<^verbatim>\<open>FAIL\<close>, is converted under \<^verbatim>\<open>OVERWRITE\<close>, and under \<^verbatim>\<open>NONE\<close> no branch is taken.
  Only \<^verbatim>\<open>ResourceNotFoundError\<close> is caught.
\<close>

definition write_step ::
  "DuplicatePolicy \<Rightarrow> element \<Rightarrow> index_document list \<Rightarrow> az_state
   \<Rightarrow> (error + index_document list) \<times> az_state" where
  "write_step policy doc documents_to_write st =
     bindE (client st)
       (\<lambda>u st1.
          case attr_id doc of
            None \<Rightarrow> (Inl AttributeError, st1)
          | Some i \<Rightarrow>
              (case sdk_get_document (a_index_name (fst st1)) (str_id i) (snd st1) of
                 (Inr found, w) \<Rightarrow>
                   if policy = SKIP then (Inr documents_to_write, (fst st1, w))
                   else if policy = FAIL then (Inl DuplicateDocumentError, (fst st1, w))
                   else if policy = OVERWRITE then
                     bindE (convert_input_document doc (fst st1, w))
                       (\<lambda>d st2. (Inr (documents_to_write @ [d]), st2))
                   else (Inr documents_to_write, (fst st1, w))
               | (Inl e, w) \<Rightarrow>
                   if e = ResourceNotFoundError then
                     bindE (convert_input_document doc (fst st1, w))
                       (\<lambda>d st2. (Inr (documents_to_write @ [d]), st2))
                   else (Inl (AzureSdkError e), (fst st1, w))))"

fun write_loop ::
  "DuplicatePolicy \<Rightarrow> element list \<Rightarrow> index_document list \<Rightarrow> az_state
   \<Rightarrow> (error + index_document list) \<times> az_state" where
  "write_loop policy [] documents_to_write st = (Inr documents_to_write, st)"
| "write_loop policy (doc # documents) documents_to_write st =
     (case write_step policy doc documents_to_write st of
        (Inl e, st1) \<Rightarrow> (Inl e, st1)
      | (Inr documents_to_write1, st1) \<Rightarrow> write_loop policy documents documents_to_write1 st1)"

text \<open>
  \<^verbatim>\<open>write_documents\<close> of the Azure store. (The \<^verbatim>\<open>print\<close> of the list is output only.)
\<close>

definition azure_write_documents ::
  "element list \<Rightarrow> DuplicatePolicy \<Rightarrow> az_state \<Rightarrow> (error + nat) \<times> az_state" where
  "azure_write_documents documents policy st =
     (if documents \<noteq> [] \<and> \<not> isinstance_Document (hd documents) then (Inl ValueError, st)
      else
        bindE (write_loop policy documents [] st)
          (\<lambda>documents_to_write st1.
             if documents_to_write \<noteq> [] then
               bindE (client st1)
                 (\<lambda>u st2.
                    case sdk_merge_or_upload_documents (a_index_name (fst st2)) documents_to_write
                           (snd st2) of
                      (Inl e, w) \<Rightarrow> (Inl (AzureSdkError e), (fst st2, w))
                    | (Inr u2, w) \<Rightarrow> (Inr (length documents_to_write), (fst st2, w)))
             else (Inr (length documents_to_write), st1)))"

text \<open>
  \<^verbatim>\<open>count_documents\<close>, \<^verbatim>\<open>_convert_search_result_to_documents\<close> and
  \<^verbatim>\<open>filter_documents\<close>. Reading \<^verbatim>\<open>self._dummy_vector\<close> raises \<^verbatim>\<open>AttributeError\<close> while
  the attribute does not exist. \<^verbatim>\<open>filter_documents\<close> does not look at its \<^verbatim>\<open>filters\<close>
  argument.
\<close>

definition count_documents :: "az_state \<Rightarrow> (error + nat) \<times> az_state" where
  "count_documents st =
     bindE (client st)
       (\<lambda>u st1.
          case sdk_get_document_count (a_index_name (fst st1)) (snd st1) of
            (Inl e, w) \<Rightarrow> (Inl (AzureSdkError e), (fst st1, w))
          | (Inr n, w) \<Rightarrow> (Inr n, (fst st1, w)))"

fun id_of_pyval :: "pyval \<Rightarrow> pyid" where
  "id_of_pyval (PyInt i) = IntId i"
| "id_of_pyval (PyStr s) = StrId s"
| "id_of_pyval v = StrId []"

fun content_of_pyval :: "pyval \<Rightarrow> string option" where
  "content_of_pyval (PyStr s) = Some s"
| "content_of_pyval v = None"

fun embedding_of_pyval :: "pyval \<Rightarrow> real list option" where
  "embedding_of_pyval (PyVec v) = Some v"
| "embedding_of_pyval v = None"

definition convert_search_result_to_document ::
  "AzureAISearchDocumentStore \<Rightarrow> index_document \<Rightarrow> error + Document" where
  "convert_search_result_to_document s azure_doc =
     (case (case map_of azure_doc ''embedding'' of
              None \<Rightarrow> Inr None
            | Some e \<Rightarrow>
                (case a_dummy_vector s of
                   None \<Rightarrow> Inl AttributeError
                 | Some dummy_vector \<Rightarrow>
                     if e \<noteq> PyVec dummy_vector then Inr (embedding_of_pyval e) else Inr None)) of
        Inl err \<Rightarrow> Inl err
      | Inr emb \<Rightarrow>
          (case map_of azure_doc ''id'' of
             None \<Rightarrow> Inl KeyError
           | Some i \<Rightarrow>
               (case map_of azure_doc ''content'' of
                  None \<Rightarrow> Inl KeyError
                | Some c \<Rightarrow>
                    Inr \<lparr> doc_id = id_of_pyval i, content = content_of_pyval c,
                          dataframe = None, blob = None, meta = [], score = None,
                          embedding = emb, sparse_embedding = None \<rparr>)))"

fun convert_search_result_to_documents ::
  "AzureAISearchDocumentStore \<Rightarrow> index_document list \<Rightarrow> error + Document list" where
  "convert_search_result_to_documents s [] = Inr []"
| "convert_search_result_to_documents s (azure_doc # azure_docs) =
     (case convert_search_result_to_document s azure_doc of
        Inl e \<Rightarrow> Inl e
      | Inr doc \<Rightarrow>
          (case convert_search_result_to_documents s azure_docs of
             Inl e \<Rightarrow> Inl e
           | Inr documents \<Rightarrow> Inr (doc # documents)))"

definition azure_filter_documents ::
  "'v pyfilters \<Rightarrow> az_state \<Rightarrow> (error + Document list) \<times> az_state" where
  "azure_filter_documents filters st =
     bindE (client st)
       (\<lambda>u st1.
          bindE (count_documents st1)
            (\<lambda>top_n st2.
               case sdk_search_all (a_index_name (fst st2)) top_n (snd st2) of
                 (Inl e, w) \<Rightarrow> (Inl (AzureSdkError e), (fst st2, w))
               | (Inr azure_docs, w) \<Rightarrow>
                   (case convert_search_result_to_documents (fst st2) azure_docs of
                      Inl e \<Rightarrow> (Inl e, (fst st2, w))
                    | Inr documents \<Rightarrow> (Inr documents, (fst st2, w)))))"

section \<open>Terms of the properties\<close>

text \<open>The number of HNSW index builds the server has been asked for.\<close>

fun is_hnsw_build :: "pg_call \<Rightarrow> bool" where
  "is_hnsw_build (CreateIndex t i (Hnsw ops kw)) = True"
| "is_hnsw_build c = False"

definition hnsw_builds :: "pg_world \<Rightarrow> nat" where
  "hnsw_builds w = length (filter is_hnsw_build (db_calls w))"

text \<open>
  Concrete instances and worlds for the closed theorems: a server that rejects nothing,
  selects every row for every \<^verbatim>\<open>WHERE\<close> text and ranks no row in the full-text search,
  with the three operators of the vector extension in exact arithmetic (\<^verbatim>\<open><=>\<close> is one
  minus the cosine of the angle, NaN when a vector is zero; \<^verbatim>\<open><#>\<close> is the negated inner
  product; \<^verbatim>\<open><->\<close> is the Euclidean distance); a store of dimension 2, also with the
  HNSW strategy.
\<close>

definition dot :: "real list \<Rightarrow> real list \<Rightarrow> real" where
  "dot v q = sum_list (map2 (*) v q)"

definition pg_world0 :: pg_world where
  "pg_world0 =
     \<lparr> db_table = Some (2, []), db_indexes = [], db_calls = [], db_connections = 0,
       warnings = [], db_fault = (\<lambda>c. None), db_where = (\<lambda>txt params r. True),
       db_ts_rank = (\<lambda>lang query r. None),
       op_cosine_distance =
         (\<lambda>v q. if dot v v = 0 \<or> dot q q = 0 then NaN
                else Number (1 - dot v q / sqrt (dot v v * dot q q))),
       op_neg_inner_product = (\<lambda>v q. Number (- dot v q)),
       op_l2_distance = (\<lambda>v q. Number (sqrt (sum_list (map2 (\<lambda>x y. (x - y) * (x - y)) v q)))) \<rparr>"

definition store2 :: PgvectorDocumentStore where
  "store2 = default_store\<lparr>embedding_dimension := 2\<rparr>"

definition hnsw_store2 :: PgvectorDocumentStore where
  "hnsw_store2 = store2\<lparr>search_strategy := ''hnsw''\<rparr>"

text \<open>
  An Azure store as its constructor gives it and a service that has the store's index
  with the three default fields and a metadata field \<^verbatim>\<open>a\<close>, without documents.
\<close>

definition az_store0 :: AzureAISearchDocumentStore where
  "az_store0 =
     \<lparr> a_index_client = False, a_index_fields = None, a_api_key = ''key'',
       a_azure_endpoint = ''https://example.search.windows.net'', a_index_name = ''default'',
       a_embedding_dimension = 2, a_metadata_fields = Some [(''a'', Tint)],
       a_create_index = True, a_dummy_vector = None \<rparr>"

definition az_world0 :: azure_world where
  "az_world0 =
     \<lparr> az_indexes =
         [(''default'', \<lparr>ix_fields = [''id'', ''content'', ''embedding'', ''a''],
                         ix_documents = []\<rparr>)],
       az_requests = [] \<rparr>"

text \<open>
  The calls that opening a connection and initialising the schema can make; the flag
  says whether \<^verbatim>\<open>DROP TABLE\<close> is among them (it is when \<^verbatim>\<open>recreate_table\<close> is set).
\<close>

fun setup_call :: "bool \<Rightarrow> pg_call \<Rightarrow> bool" where
  "setup_call b (Connect cs) = True"
| "setup_call b CreateExtension = True"
| "setup_call b (CreateTable d) = True"
| "setup_call b (DropTable t) = b"
| "setup_call b (SelectIndexExists t i) = True"
| "setup_call b (CreateIndex t i m) = True"
| "setup_call b (SetHnswEfSearch n) = True"
| "setup_call b (DropIndex i) = True"
| "setup_call b c = False"

text \<open>
  The vector function a search uses (the argument, or the store's when the argument is
  missing or empty), and the two orders of a result list by score, a missing score being
  larger than every score as on the server.
\<close>

text \<open>
  The store of dimension 2 with its connection open and its schema initialised, and a
  table of three documents with embeddings, one without an embedding and one whose
  embedding is the zero vector.
\<close>

definition store2_connected :: PgvectorDocumentStore where
  "store2_connected = store2\<lparr>p_connection := Some 0, p_schema_is_initialized := True\<rparr>"

definition row :: "string \<Rightarrow> real list option \<Rightarrow> db_document" where
  "row i e =
     \<lparr> r_id = StrId i, r_embedding = e, r_content = Some i, r_dataframe = None,
       r_blob_data = None, r_blob_meta = None, r_blob_mime_type = None, r_meta = [] \<rparr>"

definition pg_world3 :: pg_world where
  "pg_world3 =
     pg_world0\<lparr>db_table :=
       Some (2, [row ''a'' (Some [1, 0]), row ''b'' (Some [0, 1]), row ''c'' (Some [3, 4]),
                 row ''n'' None, row ''z'' (Some [0, 0])])\<rparr>"








text \<open>
  The state in which the wrapper of \<^verbatim>\<open>__getattr__\<close> starts the wrapped method: the new
  connection is set and the schema steps have run.
\<close>

definition prepared :: "pg_state \<Rightarrow> pg_state" where
  "prepared st =
     (case create_connection st of
        (Inl e, st1) \<Rightarrow> st1
      | (Inr conn, st1) \<Rightarrow> snd (ensure_schema ((fst st1)\<lparr>p_connection := Some conn\<rparr>, snd st1)))"



text \<open>
  A document with a string id, its id as content and no blob, and a service whose index
  holds one document, with the metadata field \<^verbatim>\<open>a\<close> set.
\<close>

definition plain_document :: "string \<Rightarrow> (string \<times> pyval) list \<Rightarrow> real list option \<Rightarrow> Document" where
  "plain_document i m e =
     \<lparr> doc_id = StrId i, content = Some i, dataframe = None, blob = None, meta = m,
       score = None, embedding = e, sparse_embedding = None \<rparr>"

definition az_world1 :: azure_world where
  "az_world1 =
     \<lparr> az_indexes =
         [(''default'',
           \<lparr>ix_fields = [''id'', ''content'', ''embedding'', ''a''],
            ix_documents =
              [(''1'', [(''id'', PyStr ''1''), (''content'', PyStr ''old''),
                        (''embedding'', PyVec [1, 0]), (''a'', PyInt 1)])]\<rparr>)],
       az_requests = [] \<rparr>"
section \<open>Basic facts about the model\<close>

lemma bindE_Inl [simp]: "bindE (Inl e, st) f = (Inl e, st)"
  by (simp add: bindE_def)

lemma bindE_Inr [simp]: "bindE (Inr a, st) f = f a st"
  by (simp add: bindE_def)

lemma bindE_cases:
  "bindE m f = (r, st') \<Longrightarrow>
   (\<exists>e. m = (Inl e, st') \<and> r = Inl e) \<or> (\<exists>a st1. m = (Inr a, st1) \<and> f a st1 = (r, st'))"
  by (cases m) (auto simp: bindE_def split: sum.splits)

lemma run_call_fault: "run_call c w = Inr (r, w') \<Longrightarrow> db_fault w' = db_fault w"
  by (cases c) (auto split: option.splits if_splits sum.splits prod.splits)

lemma run_call_calls: "run_call c w = Inr (r, w') \<Longrightarrow> db_calls w' = db_calls w"
  by (cases c) (auto split: option.splits if_splits sum.splits prod.splits)

lemma run_call_warnings: "run_call c w = Inr (r, w') \<Longrightarrow> warnings w' = warnings w"
  by (cases c) (auto split: option.splits if_splits sum.splits prod.splits)

lemma pg_execute_calls [simp]: "db_calls (snd (pg_execute c w)) = db_calls w @ [c]"
  by (auto simp: pg_execute_def Let_def dest: run_call_calls split: option.splits sum.splits)

lemma pg_execute_fault [simp]: "db_fault (snd (pg_execute c w)) = db_fault w"
  by (auto simp: pg_execute_def Let_def dest: run_call_fault split: option.splits sum.splits)

lemma pg_execute_warnings [simp]: "warnings (snd (pg_execute c w)) = warnings w"
  by (auto simp: pg_execute_def Let_def dest: run_call_warnings split: option.splits sum.splits)

lemma Cursor_execute_fst [simp]: "fst (snd (Cursor_execute c st)) = fst st"
  by (auto simp: Cursor_execute_def split: prod.splits sum.splits)

lemma Cursor_execute_snd: "snd (snd (Cursor_execute c st)) = snd (pg_execute c (snd st))"
  by (auto simp: Cursor_execute_def split: prod.splits sum.splits)

lemma Cursor_execute_eq:
  "Cursor_execute c st = (r, st') \<Longrightarrow> fst st' = fst st \<and> snd st' = snd (pg_execute c (snd st))"
  by (auto simp: Cursor_execute_def split: prod.splits sum.splits)

lemma bindE_fst:
  assumes "fst (snd m) = s" and "\<And>a st1. fst st1 = s \<Longrightarrow> fst (snd (f a st1)) = s"
  shows "fst (snd (bindE m f)) = s"
  using assms by (cases m) (auto simp: bindE_def split: sum.splits)

lemma create_hnsw_index_fst [simp]: "fst (snd (create_hnsw_index st)) = fst st"
  unfolding create_hnsw_index_def Let_def
  by (auto split: option.splits intro!: bindE_fst)

lemma handle_hnsw_fst [simp]: "fst (snd (handle_hnsw st)) = fst st"
  unfolding handle_hnsw_def
  by (rule bindE_fst, simp split: option.splits, rule bindE_fst, simp, simp,
      intro impI conjI bindE_fst, simp_all)

lemma delete_table_connected_fst [simp]: "fst (snd (delete_table_connected st)) = fst st"
  unfolding delete_table_connected_def by (rule bindE_fst) simp_all

lemma init_schema_fst [simp]: "fst (snd (init_schema st)) = fst st"
  unfolding init_schema_def
  by (intro bindE_fst) (simp_all)

lemma ensure_schema_fst:
  "fst (snd (ensure_schema st)) = fst st
   \<or> fst (snd (ensure_schema st)) = (fst st)\<lparr>p_schema_is_initialized := True\<rparr>"
  by (simp add: ensure_schema_def)

lemma ensure_schema_initialized [simp]:
  "p_schema_is_initialized (fst st) \<Longrightarrow> ensure_schema st = (Inr (), st)"
  by (simp add: ensure_schema_def)

lemma ensure_schema_flag [simp]: "p_schema_is_initialized (fst (snd (ensure_schema st)))"
  by (simp add: ensure_schema_def)

lemma ensure_schema_store:
  "fst (snd (ensure_schema st)) = (fst st)\<lparr>p_schema_is_initialized := True\<rparr>"
  by (simp add: ensure_schema_def)

lemma create_connection_fst [simp]: "fst (snd (create_connection st)) = fst st"
  by (simp add: create_connection_def split: prod.splits sum.splits)

lemma connection_established:
  "p_connection (fst st) = Some c \<Longrightarrow> p_schema_is_initialized (fst st)
   \<Longrightarrow> connection st = (Inr c, st)"
  by (simp add: connection_def)

lemma bindE_eq_Inr:
  "(bindE m f = (Inr b, st')) = (\<exists>a st1. m = (Inr a, st1) \<and> f a st1 = (Inr b, st'))"
  by (cases m) (auto simp: bindE_def split: sum.splits)

lemma ensure_schema_eq:
  "ensure_schema st = (r, st') \<Longrightarrow> fst st' = (fst st)\<lparr>p_schema_is_initialized := True\<rparr>"
  using ensure_schema_store [of st] by simp

lemma create_connection_eq: "create_connection st = (r, st') \<Longrightarrow> fst st' = fst st"
  using create_connection_fst [of st] by simp

lemma connection_Inr:
  assumes "connection st = (Inr c, st1)"
  shows "p_connection (fst st1) = Some c \<and> p_schema_is_initialized (fst st1)"
  using assms
  by (auto simp: connection_def bindE_eq_Inr split: option.splits
      dest!: ensure_schema_eq create_connection_eq)

lemma connection_again:
  assumes "connection st = (Inr c, st1)"
  shows "connection st1 = (Inr c, st1)"
  using connection_Inr [OF assms] by (simp add: connection_established)

lemma connected_write_documents_fst:
  assumes "p_connection (fst st) = Some c" and "p_schema_is_initialized (fst st)"
  shows "fst (snd (connected_write_documents documents policy st)) = fst st"
proof (cases "documents \<noteq> [] \<and> \<not> isinstance_Document (hd documents)")
  case True
  then show ?thesis by (simp add: connected_write_documents_def)
next
  case False
  show ?thesis
  proof (cases "from_haystack_to_pg_documents documents")
    case (Inl e)
    with False show ?thesis by (simp add: connected_write_documents_def)
  next
    case (Inr db_documents)
    obtain r w where ex: "pg_execute (InsertMany (write_conflict_action (if policy = NONE then FAIL else policy)) db_documents) (snd st) = (r, w)"
      by (cases "pg_execute (InsertMany (write_conflict_action (if policy = NONE then FAIL else policy)) db_documents) (snd st)")
    show ?thesis
      using False Inr assms ex
      by (cases r; cases "count_written_docs (result_sets (projr r))")
         (simp_all add: connected_write_documents_def connection_established Let_def)
  qed
qed

lemma restore_connection:
  "(s\<lparr>p_connection := x, p_schema_is_initialized := True\<rparr>)\<lparr>p_connection := p_connection s\<rparr>
   = s\<lparr>p_schema_is_initialized := True\<rparr>"
  "(s\<lparr>p_connection := x\<rparr>)\<lparr>p_connection := p_connection s\<rparr> = s"
  by simp_all

lemma connected_method_store:
  assumes pm: "\<And>st1 c. p_connection (fst st1) = Some c \<Longrightarrow> p_schema_is_initialized (fst st1)
     \<Longrightarrow> fst (snd (private_method st1)) = fst st1"
  shows "fst (snd (connected_method private_method st))
         = (case fst (create_connection st) of
              Inl e \<Rightarrow> fst st
            | Inr c \<Rightarrow> (fst st)\<lparr>p_schema_is_initialized := True\<rparr>)"
proof -
  obtain r st1 where Pair: "create_connection st = (r, st1)"
    by (cases "create_connection st")
  then have s1: "fst st1 = fst st" by (rule create_connection_eq)
  show ?thesis
  proof (cases r)
    case (Inl e)
    with Pair s1 show ?thesis by (simp add: connected_method_def Let_def)
  next
    case (Inr c)
    define st1' where "st1' = ((fst st1)\<lparr>p_connection := Some c\<rparr>, snd st1)"
    obtain r2 st2 where es: "ensure_schema st1' = (r2, st2)" by (cases "ensure_schema st1'")
    then have s2: "fst st2 = (fst st)\<lparr>p_connection := Some c, p_schema_is_initialized := True\<rparr>"
      using ensure_schema_eq [OF es] s1 by (simp add: st1'_def)
    show ?thesis
    proof (cases r2)
      case (Inl e)
      with Pair Inr es s2 show ?thesis
        by (simp add: connected_method_def Let_def st1'_def [symmetric] connection_exit_def)
    next
      case u: (Inr u)
      obtain r3 st3 where p: "private_method st2 = (r3, st3)" by (cases "private_method st2")
      have s3: "fst st3 = fst st2" using pm [of st2 c] s2 p by simp
      show ?thesis
        using Pair Inr es u p s2 s3
        by (cases r3) (simp_all add: connected_method_def Let_def st1'_def [symmetric] connection_exit_def)
    qed
  qed
qed

subsection \<open>The statements of the index lifecycle on the server\<close>

lemma pg_execute_index_exists:
  "pg_execute (SelectIndexExists t i) w =
     (case db_fault w (SelectIndexExists t i) of
        Some e \<Rightarrow> (Inl e, note_call (SelectIndexExists t i) w)
      | None \<Rightarrow> (Inr (Flag ((t, i) \<in> set (db_indexes w))), note_call (SelectIndexExists t i) w))"
  by (simp add: pg_execute_def note_call_def Let_def split: option.splits)

lemma pg_execute_set_ef:
  "pg_execute (SetHnswEfSearch n) w =
     (case db_fault w (SetHnswEfSearch n) of
        Some e \<Rightarrow> (Inl e, note_call (SetHnswEfSearch n) w)
      | None \<Rightarrow> (Inr NoResult, note_call (SetHnswEfSearch n) w))"
  by (simp add: pg_execute_def note_call_def Let_def split: option.splits)

lemma pg_execute_drop_index:
  "pg_execute (DropIndex i) w =
     (case db_fault w (DropIndex i) of
        Some e \<Rightarrow> (Inl e, note_call (DropIndex i) w)
      | None \<Rightarrow> (Inr NoResult,
           (note_call (DropIndex i) w)\<lparr>db_indexes := filter (\<lambda>ti. snd ti \<noteq> i) (db_indexes w)\<rparr>))"
  by (simp add: pg_execute_def note_call_def Let_def split: option.splits)

lemma pg_execute_create_index:
  "pg_execute (CreateIndex t i m) w =
     (case db_fault w (CreateIndex t i m) of
        Some e \<Rightarrow> (Inl e, note_call (CreateIndex t i m) w)
      | None \<Rightarrow>
          if db_table w = None \<or> i \<in> snd ` set (db_indexes w)
          then (Inl ProgrammingError, note_call (CreateIndex t i m) w)
          else (Inr NoResult,
                (note_call (CreateIndex t i m) w)\<lparr>db_indexes := db_indexes w @ [(t, i)]\<rparr>))"
  by (simp add: pg_execute_def note_call_def Let_def split: option.splits)

lemmas pg_hnsw_calls = pg_execute_index_exists pg_execute_set_ef pg_execute_drop_index
  pg_execute_create_index

lemma handle_hnsw_existing:
  assumes "(table_name (fst st), hnsw_index_name (fst st)) \<in> set (db_indexes (snd st))"
    and "\<not> hnsw_recreate_index_if_exists (fst st)"
    and "handle_hnsw st = (r, st')"
  shows "fst st' = fst st \<and> db_indexes (snd st') = db_indexes (snd st)
     \<and> db_table (snd st') = db_table (snd st)
     \<and> hnsw_builds (snd st') = hnsw_builds (snd st)
     \<and> db_fault (snd st') = db_fault (snd st)
     \<and> (case r of Inr u \<Rightarrow> warnings (snd st') = warnings (snd st) @ [HNSW_WARNING]
         | Inl e \<Rightarrow> e = DocumentStoreError \<and> warnings (snd st') = warnings (snd st))"
  using assms
  by (cases "hnsw_ef_search (fst st)")
     (auto simp: handle_hnsw_def Cursor_execute_def pg_hnsw_calls note_call_def hnsw_builds_def
       split: option.splits if_splits)

lemma handle_hnsw_success:
  assumes "handle_hnsw st = (Inr u, st')"
  shows "fst st' = fst st
     \<and> (table_name (fst st), hnsw_index_name (fst st)) \<in> set (db_indexes (snd st'))
     \<and> hnsw_builds (snd st') \<le> hnsw_builds (snd st) + 1
     \<and> db_fault (snd st') = db_fault (snd st)"
  using assms
  by (cases "hnsw_ef_search (fst st)")
     (auto simp: handle_hnsw_def create_hnsw_index_def Cursor_execute_def pg_hnsw_calls
       note_call_def hnsw_builds_def Let_def
       split: option.splits if_splits)

subsection \<open>The statements of the connection and the schema on the server\<close>

lemma pg_execute_connect:
  "pg_execute (Connect cs) w =
     (case db_fault w (Connect cs) of
        Some e \<Rightarrow> (Inl e, note_call (Connect cs) w)
      | None \<Rightarrow> (Inr NoResult, (note_call (Connect cs) w)\<lparr>db_connections := db_connections w + 1\<rparr>))"
  by (simp add: pg_execute_def note_call_def Let_def split: option.splits)

lemma pg_execute_create_extension:
  "pg_execute CreateExtension w =
     (case db_fault w CreateExtension of
        Some e \<Rightarrow> (Inl e, note_call CreateExtension w)
      | None \<Rightarrow> (Inr NoResult, note_call CreateExtension w))"
  by (simp add: pg_execute_def note_call_def Let_def split: option.splits)

lemma pg_execute_create_table:
  "pg_execute (CreateTable d) w =
     (case db_fault w (CreateTable d) of
        Some e \<Rightarrow> (Inl e, note_call (CreateTable d) w)
      | None \<Rightarrow> (Inr NoResult,
           case db_table w of
             None \<Rightarrow> (note_call (CreateTable d) w)\<lparr>db_table := Some (d, [])\<rparr>
           | Some t \<Rightarrow> note_call (CreateTable d) w))"
  by (simp add: pg_execute_def note_call_def Let_def split: option.splits)

lemma pg_execute_drop_table:
  "pg_execute (DropTable t) w =
     (case db_fault w (DropTable t) of
        Some e \<Rightarrow> (Inl e, note_call (DropTable t) w)
      | None \<Rightarrow> (Inr NoResult,
           (note_call (DropTable t) w)\<lparr>db_table := None,
              db_indexes := filter (\<lambda>ti. fst ti \<noteq> t) (db_indexes w)\<rparr>))"
  by (simp add: pg_execute_def note_call_def Let_def split: option.splits)

lemma where_matches_calls [simp]: "where_matches (w\<lparr>db_calls := x\<rparr>) = where_matches w"
  by (simp add: where_matches_def fun_eq_iff split: option.splits)

lemma score_of_calls [simp]: "score_of (w\<lparr>db_calls := x\<rparr>) = score_of w"
  by (simp add: score_of_def fun_eq_iff split: option.splits score_expr.splits)

lemma pg_execute_select_all:
  "pg_execute (SelectAll cond) w =
     (case db_fault w (SelectAll cond) of
        Some e \<Rightarrow> (Inl e, note_call (SelectAll cond) w)
      | None \<Rightarrow>
         (case db_table w of
            None \<Rightarrow> (Inl ProgrammingError, note_call (SelectAll cond) w)
          | Some (d, rows) \<Rightarrow>
              (Inr (Rows (map (\<lambda>r. (r, None)) (filter (where_matches w cond) rows))),
               note_call (SelectAll cond) w)))"
  by (simp add: pg_execute_def note_call_def Let_def where_matches_def split: option.splits)

lemmas pg_schema_calls = pg_execute_connect pg_execute_create_extension pg_execute_create_table
  pg_execute_drop_table

lemmas store2_defs = hnsw_store2_def store2_def default_store_def

text \<open>The first use of the connection on the example state.\<close>

lemma connection_store2:
  "connection (store2, pg_world0) =
     (Inr 0, (store2\<lparr>p_connection := Some 0, p_schema_is_initialized := True\<rparr>,
        pg_world0\<lparr>db_indexes := [(''haystack_documents'', ''haystack_keyword_index'')],
                  db_calls := [Connect ''PG_CONN_STR'', CreateExtension, CreateTable 2,
                     SelectIndexExists ''haystack_documents'' ''haystack_keyword_index'',
                     CreateIndex ''haystack_documents'' ''haystack_keyword_index'' (Gin ''english'')],
                  db_connections := 1\<rparr>))"
  by (simp add: connection_def create_connection_def ensure_schema_def init_schema_def
      Cursor_execute_def pg_schema_calls pg_hnsw_calls note_call_def store2_defs pg_world0_def)

subsection \<open>What opening a connection and initialising the schema preserve\<close>

text \<open>
  A property of the world that every call of the setup keeps, and that does not depend on
  the logged warnings, holds after each method of the setup.
\<close>

lemma bindE_pres:
  assumes "Q (snd m)" and "\<And>a st1. Q st1 \<Longrightarrow> Q (snd (f a st1))"
  shows "Q (snd (bindE m f))"
  using assms by (cases m) (auto simp: bindE_def split: sum.splits)

lemma setup_call_mono: "setup_call False c \<Longrightarrow> setup_call b c"
  by (cases c) simp_all

lemma create_hnsw_index_world:
  assumes step: "\<And>c w. setup_call False c \<Longrightarrow> P w \<Longrightarrow> P (snd (pg_execute c w))"
    and "P (snd st)"
  shows "P (snd (snd (create_hnsw_index st)))"
proof (cases "map_of VECTOR_FUNCTION_TO_POSTGRESQL_OPS (vector_function (fst st))")
  case None
  with assms show ?thesis by (simp add: create_hnsw_index_def)
next
  case (Some ops)
  define Q where "Q = (\<lambda>st :: pg_state. P (snd st))"
  have "Q (snd (create_hnsw_index st))"
    unfolding create_hnsw_index_def Let_def Some option.case
  proof (rule bindE_pres)
    show "Q (snd (Cursor_execute (CreateIndex (table_name (fst st)) (hnsw_index_name (fst st))
        (Hnsw ops (filter (\<lambda>kv. fst kv \<in> set HNSW_INDEX_CREATION_VALID_KWARGS)
           (hnsw_index_creation_kwargs (fst st))))) st))"
      using assms by (simp add: Q_def Cursor_execute_snd)
  qed simp
  then show ?thesis by (simp add: Q_def)
qed

lemma handle_hnsw_world:
  assumes step: "\<And>c w. setup_call False c \<Longrightarrow> P w \<Longrightarrow> P (snd (pg_execute c w))"
    and warn: "\<And>w x. P w \<Longrightarrow> P (w\<lparr>warnings := x\<rparr>)"
    and "P (snd st)"
  shows "P (snd (snd (handle_hnsw st)))"
proof -
  define Q where "Q = (\<lambda>st :: pg_state. P (snd st))"
  have ce: "\<And>c st. setup_call False c \<Longrightarrow> Q st \<Longrightarrow> Q (snd (Cursor_execute c st))"
    using step by (simp add: Q_def Cursor_execute_snd)
  have "Q (snd (handle_hnsw st))"
    unfolding handle_hnsw_def
  proof (rule bindE_pres)
    show "Q (snd (case hnsw_ef_search (fst st) of
                    None \<Rightarrow> (Inr NoResult, st)
                  | Some ef \<Rightarrow> if ef \<noteq> 0 then Cursor_execute (SetHnswEfSearch ef) st
                              else (Inr NoResult, st)))"
      using assms ce [of "SetHnswEfSearch (the (hnsw_ef_search (fst st)))" st]
      by (cases "hnsw_ef_search (fst st)") (auto simp: Q_def)
  next
    fix a st1 assume q1: "Q st1"
    show "Q (snd (bindE (Cursor_execute
                   (SelectIndexExists (table_name (fst st1)) (hnsw_index_name (fst st1))) st1)
            (\<lambda>r st2.
               if fetched r \<and> \<not> hnsw_recreate_index_if_exists (fst st2) then
                 (Inr (), (fst st2, (snd st2)\<lparr>warnings := warnings (snd st2) @ [HNSW_WARNING]\<rparr>))
               else
                 bindE (Cursor_execute (DropIndex (hnsw_index_name (fst st2))) st2)
                   (\<lambda>r3 st3. create_hnsw_index st3))))"
    proof (rule bindE_pres)
      show "Q (snd (Cursor_execute
                   (SelectIndexExists (table_name (fst st1)) (hnsw_index_name (fst st1))) st1))"
        using q1 by (intro ce) simp_all
    next
      fix r st2 assume q2: "Q st2"
      have "Q (snd (bindE (Cursor_execute (DropIndex (hnsw_index_name (fst st2))) st2)
                   (\<lambda>r3 st3. create_hnsw_index st3)))"
      proof (rule bindE_pres)
        show "Q (snd (Cursor_execute (DropIndex (hnsw_index_name (fst st2))) st2))"
          using q2 by (intro ce) simp_all
      next
        fix r3 st3 assume "Q st3"
        then have "P (snd st3)" by (simp add: Q_def)
        then have "P (snd (snd (create_hnsw_index st3)))"
          using step by (rule create_hnsw_index_world [where P = P, rotated])
        then show "Q (snd (create_hnsw_index st3))" by (simp add: Q_def)
      qed
      with q2 warn
      show "Q (snd (if fetched r \<and> \<not> hnsw_recreate_index_if_exists (fst st2) then
                 (Inr (), (fst st2, (snd st2)\<lparr>warnings := warnings (snd st2) @ [HNSW_WARNING]\<rparr>))
               else
                 bindE (Cursor_execute (DropIndex (hnsw_index_name (fst st2))) st2)
                   (\<lambda>r3 st3. create_hnsw_index st3)))"
        by (simp add: Q_def)
    qed
  qed
  then show ?thesis by (simp add: Q_def)
qed

lemma init_schema_world:
  assumes step: "\<And>c w. setup_call (recreate_table (fst st)) c \<Longrightarrow> P w \<Longrightarrow> P (snd (pg_execute c w))"
    and warn: "\<And>w x. P w \<Longrightarrow> P (w\<lparr>warnings := x\<rparr>)"
    and "P (snd st)"
  shows "P (snd (snd (init_schema st)))"
proof -
  define Q where "Q = (\<lambda>st :: pg_state. P (snd st))"
  have step0: "\<And>c w. setup_call False c \<Longrightarrow> P w \<Longrightarrow> P (snd (pg_execute c w))"
    using step setup_call_mono by blast
  have ce: "\<And>c st. setup_call False c \<Longrightarrow> Q st \<Longrightarrow> Q (snd (Cursor_execute c st))"
    using step0 by (simp add: Q_def Cursor_execute_snd)
  have "Q (snd (init_schema st))"
    unfolding init_schema_def
  proof (rule bindE_pres)
    show "Q (snd (if recreate_table (fst st) then delete_table_connected st else (Inr (), st)))"
    proof (cases "recreate_table (fst st)")
      case True
      have "Q (snd (delete_table_connected st))"
        unfolding delete_table_connected_def
      proof (rule bindE_pres)
        show "Q (snd (Cursor_execute (DropTable (table_name (fst st))) st))"
          using step [of "DropTable (table_name (fst st))"] True assms(3)
          by (simp add: Q_def Cursor_execute_snd)
      qed simp
      with True show ?thesis by simp
    next
      case False
      with assms(3) show ?thesis by (simp add: Q_def)
    qed
  next
    fix u st1 assume q1: "Q st1"
    show "Q (snd (bindE (Cursor_execute (CreateTable (embedding_dimension (fst st1))) st1)
            (\<lambda>r1 st2.
               bindE (Cursor_execute
                        (SelectIndexExists (table_name (fst st2)) (keyword_index_name (fst st2)))
                        st2)
                 (\<lambda>r2 st3.
                    bindE (if \<not> fetched r2 then
                             Cursor_execute
                               (CreateIndex (table_name (fst st3)) (keyword_index_name (fst st3))
                                  (Gin (language (fst st3)))) st3
                           else (Inr NoResult, st3))
                      (\<lambda>r3 st4.
                         if search_strategy (fst st4) = ''hnsw'' then handle_hnsw st4
                         else (Inr (), st4))))))"
    proof (rule bindE_pres)
      show "Q (snd (Cursor_execute (CreateTable (embedding_dimension (fst st1))) st1))"
        using q1 by (intro ce) simp_all
    next
      fix r1 st2 assume q2: "Q st2"
      show "Q (snd (bindE (Cursor_execute
                        (SelectIndexExists (table_name (fst st2)) (keyword_index_name (fst st2)))
                        st2)
                 (\<lambda>r2 st3.
                    bindE (if \<not> fetched r2 then
                             Cursor_execute
                               (CreateIndex (table_name (fst st3)) (keyword_index_name (fst st3))
                                  (Gin (language (fst st3)))) st3
                           else (Inr NoResult, st3))
                      (\<lambda>r3 st4.
                         if search_strategy (fst st4) = ''hnsw'' then handle_hnsw st4
                         else (Inr (), st4)))))"
      proof (rule bindE_pres)
        show "Q (snd (Cursor_execute
                        (SelectIndexExists (table_name (fst st2)) (keyword_index_name (fst st2)))
                        st2))"
          using q2 by (intro ce) simp_all
      next
        fix r2 st3 assume q3: "Q st3"
        show "Q (snd (bindE (if \<not> fetched r2 then
                             Cursor_execute
                               (CreateIndex (table_name (fst st3)) (keyword_index_name (fst st3))
                                  (Gin (language (fst st3)))) st3
                           else (Inr NoResult, st3))
                      (\<lambda>r3 st4.
                         if search_strategy (fst st4) = ''hnsw'' then handle_hnsw st4
                         else (Inr (), st4))))"
        proof (rule bindE_pres)
          have "Q (snd (Cursor_execute
                               (CreateIndex (table_name (fst st3)) (keyword_index_name (fst st3))
                                  (Gin (language (fst st3)))) st3))"
            using q3 by (intro ce) simp_all
          with q3 show "Q (snd (if \<not> fetched r2 then
                             Cursor_execute
                               (CreateIndex (table_name (fst st3)) (keyword_index_name (fst st3))
                                  (Gin (language (fst st3)))) st3
                           else (Inr NoResult, st3)))"
            by simp
        next
          fix r3 st4 assume "Q st4"
          then have p4: "P (snd st4)" by (simp add: Q_def)
          have "P (snd (snd (handle_hnsw st4)))"
            by (rule handle_hnsw_world [where P = P]) (use step0 warn p4 in auto)
          with p4 show "Q (snd (if search_strategy (fst st4) = ''hnsw'' then handle_hnsw st4
                         else (Inr (), st4)))"
            by (simp add: Q_def)
        qed
      qed
    qed
  qed
  then show ?thesis by (simp add: Q_def)
qed

lemma ensure_schema_world:
  assumes step: "\<And>c w. setup_call (recreate_table (fst st)) c \<Longrightarrow> P w \<Longrightarrow> P (snd (pg_execute c w))"
    and warn: "\<And>w x. P w \<Longrightarrow> P (w\<lparr>warnings := x\<rparr>)"
    and "P (snd st)"
  shows "P (snd (snd (ensure_schema st)))"
proof (cases "p_schema_is_initialized (fst st)")
  case True
  with assms(3) show ?thesis by simp
next
  case False
  have "P (snd (snd (init_schema ((fst st)\<lparr>p_schema_is_initialized := True\<rparr>, snd st))))"
    by (rule init_schema_world [where P = P]) (use assms in auto)
  with False show ?thesis by (simp add: ensure_schema_def)
qed

lemma create_connection_world:
  assumes step: "\<And>c w. setup_call False c \<Longrightarrow> P w \<Longrightarrow> P (snd (pg_execute c w))"
    and "P (snd st)"
  shows "P (snd (snd (create_connection st)))"
proof -
  have 1: "P (snd (pg_execute (Connect (connection_string (fst st))) (snd st)))"
    using assms by simp
  then have 2: "P (snd (pg_execute CreateExtension
                  (snd (pg_execute (Connect (connection_string (fst st))) (snd st)))))"
    using step by simp
  show ?thesis
    using 1 2
    by (cases "pg_execute (Connect (connection_string (fst st))) (snd st)";
        cases "pg_execute CreateExtension
                  (snd (pg_execute (Connect (connection_string (fst st))) (snd st)))")
       (auto simp: create_connection_def split: sum.splits)
qed

lemma connection_world:
  assumes step: "\<And>c w. setup_call (recreate_table (fst st)) c \<Longrightarrow> P w \<Longrightarrow> P (snd (pg_execute c w))"
    and warn: "\<And>w x. P w \<Longrightarrow> P (w\<lparr>warnings := x\<rparr>)"
    and "P (snd st)"
  shows "P (snd (snd (connection st)))"
proof -
  define b where "b = recreate_table (fst st)"
  define Q where "Q = (\<lambda>st :: pg_state. recreate_table (fst st) = b \<and> P (snd st))"
  have step0: "\<And>c w. setup_call False c \<Longrightarrow> P w \<Longrightarrow> P (snd (pg_execute c w))"
    using step setup_call_mono by blast
  have q0: "Q st" using assms(3) by (simp add: Q_def b_def)
  have "Q (snd (connection st))"
    unfolding connection_def
  proof (rule bindE_pres)
    show "Q (snd (case p_connection (fst st) of
              None \<Rightarrow>
                bindE (create_connection st)
                  (\<lambda>c st1. (Inr c, ((fst st1)\<lparr>p_connection := Some c\<rparr>, snd st1)))
            | Some c \<Rightarrow> (Inr c, st)))"
    proof (cases "p_connection (fst st)")
      case None
      have "Q (snd (bindE (create_connection st)
                  (\<lambda>c st1. (Inr c, ((fst st1)\<lparr>p_connection := Some c\<rparr>, snd st1)))))"
      proof (rule bindE_pres)
        have "P (snd (snd (create_connection st)))"
          by (rule create_connection_world [where P = P]) (use step0 assms(3) in auto)
        then show "Q (snd (create_connection st))"
          by (simp add: Q_def b_def)
      qed (simp add: Q_def)
      with None show ?thesis by simp
    next
      case (Some c)
      with q0 show ?thesis by simp
    qed
  next
    fix c st1 assume q1: "Q st1"
    show "Q (snd (bindE (ensure_schema st1) (\<lambda>u st2. (Inr c, st2))))"
    proof (rule bindE_pres)
      have "P (snd (snd (ensure_schema st1)))"
        by (rule ensure_schema_world [where P = P]) (use q1 step warn in \<open>auto simp: Q_def b_def\<close>)
      with q1 show "Q (snd (ensure_schema st1))"
        by (simp add: Q_def ensure_schema_store)
    qed simp
  qed
  then show ?thesis by (simp add: Q_def)
qed

subsection \<open>The rows of the table across the setup\<close>

lemma table_rows_note [simp]: "table_rows (note_call c w) = table_rows w"
  "db_table (note_call c w) = db_table w"
  by (simp_all add: table_rows_def note_call_def)

lemma table_rows_warnings [simp]: "table_rows (w\<lparr>warnings := x\<rparr>) = table_rows w"
  by (simp add: table_rows_def)






lemma prepared_store:
  assumes "create_connection st = (Inr conn, st1)"
  shows "fst (prepared st) = (fst st)\<lparr>p_connection := Some conn, p_schema_is_initialized := True\<rparr>"
  using assms create_connection_eq [OF assms]
  by (simp add: prepared_def ensure_schema_store)

subsection \<open>Writing to the pgvector store\<close>

lemma pg_execute_insert_many:
  "pg_execute (InsertMany act params) w =
     (case db_fault w (InsertMany act params) of
        Some e \<Rightarrow> (Inl e, note_call (InsertMany act params) w)
      | None \<Rightarrow>
         (case db_table w of
            None \<Rightarrow> (Inl ProgrammingError, note_call (InsertMany act params) w)
          | Some (d, rows) \<Rightarrow>
              (case insert_rows act d params rows of
                 Inl e \<Rightarrow> (Inl e, note_call (InsertMany act params) w)
               | Inr (ress, rows1) \<Rightarrow>
                   (Inr (ResultSets ress),
                    (note_call (InsertMany act params) w)\<lparr>db_table := Some (d, rows1)\<rparr>))))"
  by (simp add: pg_execute_def note_call_def Let_def split: option.splits sum.splits prod.splits)


lemma insert_rows_length:
  "insert_rows act d params rows = Inr (ress, rows1) \<Longrightarrow> length ress = length params"
  by (induction params arbitrary: rows ress rows1)
     (auto split: sum.splits prod.splits)

lemma insert_rows_Nil [simp]: "insert_rows act d [] rows = Inr ([], rows)"
  by simp

text \<open>The write in a state whose connection is open and whose schema is initialised.\<close>

lemma connected_write_documents_established:
  assumes "p_connection (fst st) = Some c" and "p_schema_is_initialized (fst st)"
  shows "connected_write_documents documents policy st =
     (if documents \<noteq> [] \<and> \<not> isinstance_Document (hd documents) then (Inl ValueError, st)
      else
        (case from_haystack_to_pg_documents documents of
           Inl e \<Rightarrow> (Inl e, st)
         | Inr db_documents \<Rightarrow>
             (case pg_execute (InsertMany (write_conflict_action (if policy = NONE then FAIL else policy))
                      db_documents) (snd st) of
                (Inl e, w) \<Rightarrow>
                  (Inl (if e = IntegrityError then DuplicateDocumentError else DocumentStoreError),
                   (fst st, note_call Rollback w))
              | (Inr r, w) \<Rightarrow>
                  (case count_written_docs (result_sets r) of
                     Inl e \<Rightarrow> (Inl e, (fst st, w))
                   | Inr written_docs \<Rightarrow> (Inr written_docs, (fst st, w))))))"
  using assms
  by (simp add: connected_write_documents_def connection_established Let_def
      split: sum.splits)


lemma connected_method_outcome:
  obtains
    (not_started) e where "fst (connected_method pm st) = Inl e"
      and "db_table (snd (snd (connected_method pm st))) = db_table (snd (prepared st))"
      and "\<not> p_schema_is_initialized (fst st) \<or> isl (fst (create_connection st))"
  | (started) conn where "fst (create_connection st) = Inr conn"
      and "p_connection (fst (prepared st)) = Some conn"
      and "p_schema_is_initialized (fst (prepared st))"
      and "fst (connected_method pm st) = fst (pm (prepared st))"
      and "db_table (snd (snd (connected_method pm st))) = db_table (snd (snd (pm (prepared st))))"
proof -
  obtain r st1 where c: "create_connection st = (r, st1)" by (cases "create_connection st")
  show ?thesis
  proof (cases r)
    case (Inl e)
    with c show ?thesis
      by (intro not_started [of e]) (simp_all add: connected_method_def prepared_def)
  next
    case (Inr conn)
    let ?st1 = "((fst st1)\<lparr>p_connection := Some conn\<rparr>, snd st1)"
    obtain r2 st2 where es: "ensure_schema ?st1 = (r2, st2)" by (cases "ensure_schema ?st1")
    with c Inr have p: "prepared st = st2" by (simp add: prepared_def)
    show ?thesis
    proof (cases r2)
      case (Inl e)
      from create_connection_eq [OF c] es Inl have "\<not> p_schema_is_initialized (fst st)"
        by (auto simp: ensure_schema_def split: if_splits)
      with c Inr es p Inl show ?thesis
        by (intro not_started [of e])
           (simp_all add: connected_method_def connection_exit_def)
    next
      case u: (Inr u)
      obtain r3 st3 where pm: "pm st2 = (r3, st3)" by (cases "pm st2")
      from prepared_store [of st conn st1] c Inr
      have s: "p_connection (fst (prepared st)) = Some conn"
        "p_schema_is_initialized (fst (prepared st))" by simp_all
      from c Inr es u pm p s show ?thesis
        by (intro started [of conn]; cases r3)
           (simp_all add: connected_method_def connection_exit_def)
    qed
  qed
qed



subsection \<open>A batch of inserts\<close>

lemma from_haystack_to_pg_documents_Docs [simp]:
  "from_haystack_to_pg_documents (map Doc ds) = Inr (map to_db_document ds)"
  by (induction ds) simp_all


lemma row_ids_append [simp]: "row_ids (rows @ rows') = row_ids rows @ row_ids rows'"
  by (simp add: row_ids_def)

lemma str_id_stored [simp]: "str_id (r_id (stored r)) = str_id (r_id r)"
  by (simp add: stored_def)



lemma insert_row_errors:
  "insert_row act d r rows = Inl e \<Longrightarrow> e = IntegrityError \<or> e = DataError"
  by (auto simp: insert_row_def split: if_splits option.splits conflict_action.splits)

lemma insert_rows_errors:
  "insert_rows act d params rows = Inl e \<Longrightarrow> e = IntegrityError \<or> e = DataError"
proof (induction params arbitrary: rows)
  case Nil
  then show ?case by simp
next
  case (Cons r rs)
  show ?case
  proof (cases "insert_row act d r rows")
    case (Inl e1)
    with Cons.prems insert_row_errors [OF Inl] show ?thesis by simp
  next
    case (Inr p)
    obtain res rows1 where p: "p = (res, rows1)" by (cases p)
    with Inr Cons.prems have "insert_rows act d rs rows1 = Inl e"
      by (auto split: sum.splits)
    then show ?thesis by (rule Cons.IH)
  qed
qed



subsection \<open>An existing id under the policy FAIL\<close>

lemma create_connection_table [simp]:
  "db_table (snd (snd (create_connection st))) = db_table (snd st)"
  by (simp add: create_connection_def pg_execute_connect pg_execute_create_extension
      split: option.splits)

lemma create_connection_fault [simp]:
  "db_fault (snd (snd (create_connection st))) = db_fault (snd st)"
  by (rule create_connection_world [where P = "\<lambda>w. db_fault w = db_fault (snd st)"]) simp_all

lemma create_connection_no_fault:
  "db_fault (snd st) = (\<lambda>c. None) \<Longrightarrow> fst (create_connection st) = Inr (db_connections (snd st))"
  by (simp add: create_connection_def pg_execute_connect pg_execute_create_extension
      note_call_def)

lemma prepared_initialized:
  assumes "p_schema_is_initialized (fst st)"
  shows "snd (prepared st) = snd (snd (create_connection st))"
proof -
  obtain r st1 where c: "create_connection st = (r, st1)" by (cases "create_connection st")
  from create_connection_eq [OF c] assms c show ?thesis
    by (cases r) (simp_all add: prepared_def)
qed








subsection \<open>The Azure store: the client and the documents of the indexes\<close>

lemma index_documents_note [simp]: "index_documents (az_note rq w) = index_documents w"
  by (simp add: index_documents_def az_note_def fun_eq_iff)

lemma az_indexes_note [simp]: "az_indexes (az_note rq w) = az_indexes w"
  by (simp add: az_note_def)



lemma create_index_name [simp]:
  "a_index_name (fst (snd (create_index name st))) = a_index_name (fst st)"
  by (auto simp: create_index_def Let_def split: option.splits sum.splits prod.splits)


lemma client_name [simp]: "a_index_name (fst (snd (client st))) = a_index_name (fst st)"
  by (auto simp: client_def Let_def index_exists_def sdk_list_index_names_def
      split: prod.splits bool.splits)



lemma convert_input_document_name [simp]:
  "a_index_name (fst (snd (convert_input_document doc st))) = a_index_name (fst st)"
  by (cases doc) (auto simp: default_index_mapping_def Let_def split: pyid.splits prod.splits if_splits)


lemma sdk_get_document_world [simp]:
  "index_documents (snd (sdk_get_document n k w)) = index_documents w"
  "az_indexes (snd (sdk_get_document n k w)) = az_indexes w"
  by (auto simp: sdk_get_document_def split: option.splits)

lemma sdk_get_document_fst:
  "fst (sdk_get_document n k w) =
     (case map_of (index_documents w n) k of None \<Rightarrow> Inl ResourceNotFoundError | Some d \<Rightarrow> Inr d)"
  by (auto simp: sdk_get_document_def split: option.splits)

text \<open>What one round of the loop does after the client has been obtained.\<close>

lemma write_step_after_client:
  assumes "client st = (Inr (), st1)"
  shows "write_step policy doc acc st =
     (case attr_id doc of
        None \<Rightarrow> (Inl AttributeError, st1)
      | Some i \<Rightarrow>
          (let w = snd (sdk_get_document (a_index_name (fst st1)) (str_id i) (snd st1))
           in if map_of (index_documents (snd st1) (a_index_name (fst st1))) (str_id i) \<noteq> None then
                if policy = SKIP \<or> policy = NONE then (Inr acc, (fst st1, w))
                else if policy = FAIL then (Inl DuplicateDocumentError, (fst st1, w))
                else bindE (convert_input_document doc (fst st1, w)) (\<lambda>d st2. (Inr (acc @ [d]), st2))
              else bindE (convert_input_document doc (fst st1, w)) (\<lambda>d st2. (Inr (acc @ [d]), st2))))"
  using assms
  by (cases policy)
     (auto simp: write_step_def sdk_get_document_def Let_def split: option.splits)

lemma write_step_client_error:
  assumes "client st = (Inl e, st1)"
  shows "write_step policy doc acc st = (Inl e, st1)"
  using assms by (simp add: write_step_def)


lemma bindE_convert_name:
  "a_index_name (fst (snd (bindE (convert_input_document doc st) (\<lambda>d st2. (Inr (f d), st2)))))
     = a_index_name (fst st)"
proof -
  obtain r st2 where c: "convert_input_document doc st = (r, st2)"
    by (cases "convert_input_document doc st")
  have "a_index_name (fst st2) = a_index_name (fst st)"
    using convert_input_document_name [of doc st] c by simp
  with c show ?thesis by (cases r) simp_all
qed


lemma write_step_name [simp]:
  "a_index_name (fst (snd (write_step policy doc acc st))) = a_index_name (fst st)"
proof -
  obtain r st1 where c: "client st = (r, st1)" by (cases "client st")
  have d: "a_index_name (fst st1) = a_index_name (fst st)"
    using client_name [of st] c by simp
  show ?thesis
  proof (cases r)
    case (Inl e)
    with c d show ?thesis by (simp add: write_step_client_error)
  next
    case (Inr u)
    with c have "client st = (Inr (), st1)" by simp
    from write_step_after_client [OF this] d show ?thesis
      by (auto simp: Let_def bindE_convert_name split: option.splits)
  qed
qed


lemma write_loop_name [simp]:
  "a_index_name (fst (snd (write_loop policy docs acc st))) = a_index_name (fst st)"
proof (induction docs arbitrary: acc st)
  case Nil
  show ?case by simp
next
  case (Cons doc docs)
  obtain r st1 where s: "write_step policy doc acc st = (r, st1)"
    by (cases "write_step policy doc acc st")
  have d: "a_index_name (fst st1) = a_index_name (fst st)"
    using write_step_name [of policy doc acc st] s by simp
  show ?case
  proof (cases r)
    case (Inl e)
    with s d show ?thesis by simp
  next
    case (Inr acc1)
    with s d Cons.IH [of acc1 st1] show ?thesis by simp
  qed
qed













subsection \<open>Batches with an element that cannot be written\<close>








subsection \<open>The number of written documents\<close>





lemma write_conflict_action_NONE:
  "write_conflict_action (if policy = NONE then FAIL else policy) = write_conflict_action policy"
  by (simp add: write_conflict_action_def)





subsection \<open>Writes that return\<close>


lemma pg_world3_table:
  "db_fault pg_world3 = (\<lambda>c. None)"
  "db_table pg_world3
     = Some (2, [row ''a'' (Some [1, 0]), row ''b'' (Some [0, 1]), row ''c'' (Some [3, 4]),
                 row ''n'' None, row ''z'' (Some [0, 0])])"
  by (simp_all add: pg_world3_def pg_world0_def)




subsection \<open>Overwriting and reading back on concrete stores\<close>

lemma write_documents_nominal_table:
  assumes flag: "p_schema_is_initialized (fst st)"
    and nf: "db_fault (snd st) = (\<lambda>c. None)"
    and t: "db_table (snd st) = Some (d, rows)"
    and ins: "insert_rows (write_conflict_action policy) d (map to_db_document ds) rows
              = Inr (ress, rows1)"
    and ne: "ds \<noteq> []"
  shows "db_table (snd (snd (write_documents (map Doc ds) policy st))) = Some (d, rows1)"
proof (cases rule: connected_method_outcome
    [of "connected_write_documents (map Doc ds) policy" st])
  case (not_started e)
  with flag create_connection_no_fault [OF nf] show ?thesis by simp
next
  case (started c)
  have w: "snd (prepared st) = snd (snd (create_connection st))"
    using flag by (rule prepared_initialized)
  have nf': "db_fault (snd (prepared st)) = (\<lambda>c. None)" using nf w by simp
  have t': "db_table (snd (prepared st)) = Some (d, rows)" using t w by simp
  from insert_rows_length [OF ins] ne have "ress \<noteq> []" by auto
  with nf' t' ins
  have "db_table (snd (snd (connected_write_documents (map Doc ds) policy (prepared st))))
        = Some (d, rows1)"
    unfolding connected_write_documents_established [OF started(2,3)] write_conflict_action_NONE
    by (cases ds) (simp_all add: pg_execute_insert_many count_written_docs_def note_call_def)
  with started(5) show ?thesis by (simp add: write_documents_def)
qed

lemma write_documents_overwrite_example:
  "table_rows (snd (snd (write_documents [Doc (plain_document ''a'' [(''k'', PyInt 1)] None)]
       OVERWRITE (store2_connected, pg_world3))))
   = [to_db_document (plain_document ''a'' [(''k'', PyInt 1)] None), row ''b'' (Some [0, 1]),
      row ''c'' (Some [3, 4]), row ''n'' None, row ''z'' (Some [0, 0])]"
proof -
  let ?rows = "[row ''a'' (Some [1, 0]), row ''b'' (Some [0, 1]), row ''c'' (Some [3, 4]),
                 row ''n'' None, row ''z'' (Some [0, 0])]"
  let ?ds = "[plain_document ''a'' [(''k'', PyInt 1)] None]"
  have flag: "p_schema_is_initialized (fst (store2_connected, pg_world3))"
    by (simp add: store2_connected_def)
  have nf: "db_fault (snd (store2_connected, pg_world3)) = (\<lambda>c. None)"
    by (simp add: pg_world3_table)
  have t: "db_table (snd (store2_connected, pg_world3)) = Some (2, ?rows)"
    by (simp add: pg_world3_table)
  have ins: "insert_rows (write_conflict_action OVERWRITE) 2 (map to_db_document ?ds) ?rows
             = Inr ([[''a'']],
                 [to_db_document (plain_document ''a'' [(''k'', PyInt 1)] None),
                  row ''b'' (Some [0, 1]), row ''c'' (Some [3, 4]), row ''n'' None,
                  row ''z'' (Some [0, 0])])"
    by (simp add: write_conflict_action_def insert_row_def row_ids_def to_db_document_def
        plain_document_def row_def stored_def)
  from write_documents_nominal_table [OF flag nf t ins] show ?thesis
    by (simp add: table_rows_def)
qed

lemmas azure_defs =
  azure_write_documents_def write_step_def client_def index_exists_def
  sdk_list_index_names_def sdk_get_document_def index_documents_def az_note_def
  default_index_mapping_def dict_update_def Let_def
  sdk_merge_or_upload_documents_def accepted_document_def document_key_def
  merge_or_upload_def plain_document_def az_store0_def

lemma azure_overwrite_example:
  "fst (azure_write_documents [Doc (plain_document ''1'' [] (Some [0, 1]))] OVERWRITE
          (az_store0, az_world1)) = Inr 1
   \<and> index_documents (snd (snd (azure_write_documents
          [Doc (plain_document ''1'' [] (Some [0, 1]))] OVERWRITE (az_store0, az_world1))))
        ''default''
     = [(''1'', [(''id'', PyStr ''1''), (''content'', PyStr ''1''), (''embedding'', PyVec [0, 1]),
                 (''a'', PyInt 1)])]"
  by (simp add: azure_defs az_world1_def)

lemma azure_write_without_embedding:
  "azure_write_documents [Doc (plain_document ''2'' [] None)] FAIL (az_store0, az_world0)
   = (Inr 1,
      az_store0\<lparr>a_index_client := True, a_dummy_vector := Some [- 10, - 10]\<rparr>,
      \<lparr> az_indexes =
          [(''default'',
            \<lparr>ix_fields = [''id'', ''content'', ''embedding'', ''a''],
             ix_documents =
               [(''2'', [(''id'', PyStr ''2''), (''content'', PyStr ''2''),
                         (''embedding'', PyVec [- 10, - 10])])]\<rparr>)],
        az_requests =
          [ListIndexNames, GetDocument ''default'' ''2'', ListIndexNames,
           MergeOrUpload ''default''
             [[(''id'', PyStr ''2''), (''content'', PyStr ''2''),
               (''embedding'', PyVec [- 10, - 10])]]] \<rparr>)"
  by (simp add: azure_defs az_world0_def numeral_2_eq_2)

lemmas azure_read_defs =
  azure_filter_documents_def client_def index_exists_def sdk_list_index_names_def
  az_note_def count_documents_def sdk_get_document_count_def sdk_search_all_def
  convert_search_result_to_document_def Let_def

lemma azure_read_same_instance:
  "fst (azure_filter_documents (FiltersNone :: unit pyfilters)
     (snd (azure_write_documents [Doc (plain_document ''2'' [] None)] FAIL (az_store0, az_world0))))
   = Inr [plain_document ''2'' [] None]"
  unfolding azure_write_without_embedding
  by (simp add: azure_read_defs az_store0_def plain_document_def)

lemma azure_read_fresh_instance:
  "fst (azure_filter_documents (FiltersNone :: unit pyfilters)
     (az_store0,
      snd (snd (azure_write_documents [Doc (plain_document ''2'' [] None)] FAIL
        (az_store0, az_world0)))))
   = Inl AttributeError"
  unfolding azure_write_without_embedding
  by (simp add: azure_read_defs az_store0_def)

lemma azure_read_fresh_instance_any:
  "fst (azure_filter_documents (FiltersNone :: unit pyfilters) (az_store0, az_world1))
   = Inl AttributeError"
  by (simp add: azure_read_defs az_store0_def az_world1_def)

section \<open>The connection attribute across a write\<close>

text \<open>
  Claim C10. A call of \<^verbatim>\<open>write_documents\<close> on the pgvector store, whether it returns or
  raises, leaves \<^verbatim>\<open>_connection\<close> as it was before the call, and leaves every other
  attribute of the instance as it was except \<^verbatim>\<open>_schema_is_initialized\<close>, which may have
  been raised.
\<close>

theorem write_documents_restores_connection:
  "p_connection (fst (snd (write_documents documents policy st))) = p_connection (fst st)
   \<and> (fst (snd (write_documents documents policy st)) = fst st
       \<or> fst (snd (write_documents documents policy st))
          = (fst st)\<lparr>p_schema_is_initialized := True\<rparr>)"
proof -
  have "fst (snd (write_documents documents policy st))
         = (case fst (create_connection st) of
              Inl e \<Rightarrow> fst st
            | Inr c \<Rightarrow> (fst st)\<lparr>p_schema_is_initialized := True\<rparr>)"
    unfolding write_documents_def
    by (rule connected_method_store) (rule connected_write_documents_fst)
  then show ?thesis by (cases "fst (create_connection st)") simp_all
qed

section \<open>The index lifecycle is idempotent\<close>

text \<open>
  Claim C8. With \<^verbatim>\<open>hnsw_recreate_index_if_exists\<close> false: when the catalogue already has
  an index with the configured table and index name, \<^verbatim>\<open>_handle_hnsw\<close> asks for no
  index build, leaves the catalogue as it is and, when its existence query succeeds,
  emits the warning (otherwise it raises \<^verbatim>\<open>DocumentStoreError\<close>); and after any call
  that returned, a second call asks for no build, so that the two calls together ask for
  at most one, leaves the catalogue as the first call left it and emits the warning.
\<close>

theorem handle_hnsw_idempotent:
  assumes nr: "\<not> hnsw_recreate_index_if_exists (fst st)"
  shows "((table_name (fst st), hnsw_index_name (fst st)) \<in> set (db_indexes (snd st)) \<longrightarrow>
            hnsw_builds (snd (snd (handle_hnsw st))) = hnsw_builds (snd st)
          \<and> db_indexes (snd (snd (handle_hnsw st))) = db_indexes (snd st)
          \<and> (case fst (handle_hnsw st) of
                Inr u \<Rightarrow> warnings (snd (snd (handle_hnsw st))) = warnings (snd st) @ [HNSW_WARNING]
              | Inl e \<Rightarrow> e = DocumentStoreError))
       \<and> (\<forall>st1. handle_hnsw st = (Inr (), st1) \<longrightarrow>
            hnsw_builds (snd (snd (handle_hnsw st1))) = hnsw_builds (snd st1)
          \<and> hnsw_builds (snd (snd (handle_hnsw st1))) \<le> hnsw_builds (snd st) + 1
          \<and> db_indexes (snd (snd (handle_hnsw st1))) = db_indexes (snd st1)
          \<and> (case fst (handle_hnsw st1) of
                Inr u \<Rightarrow> warnings (snd (snd (handle_hnsw st1))) = warnings (snd st1) @ [HNSW_WARNING]
              | Inl e \<Rightarrow> e = DocumentStoreError))"
proof (intro conjI impI allI)
  assume ex: "(table_name (fst st), hnsw_index_name (fst st)) \<in> set (db_indexes (snd st))"
  obtain r st' where h: "handle_hnsw st = (r, st')" by (cases "handle_hnsw st")
  from handle_hnsw_existing [OF ex nr h] h
  show "hnsw_builds (snd (snd (handle_hnsw st))) = hnsw_builds (snd st)"
    and "db_indexes (snd (snd (handle_hnsw st))) = db_indexes (snd st)"
    and "case fst (handle_hnsw st) of
           Inr u \<Rightarrow> warnings (snd (snd (handle_hnsw st))) = warnings (snd st) @ [HNSW_WARNING]
         | Inl e \<Rightarrow> e = DocumentStoreError"
    by (auto split: sum.splits)
next
  fix st1
  assume first: "handle_hnsw st = (Inr (), st1)"
  note f = handle_hnsw_success [OF first]
  from f nr have ex1: "(table_name (fst st1), hnsw_index_name (fst st1)) \<in> set (db_indexes (snd st1))"
    and nr1: "\<not> hnsw_recreate_index_if_exists (fst st1)"
    by simp_all
  obtain r st2 where h: "handle_hnsw st1 = (r, st2)" by (cases "handle_hnsw st1")
  note s = handle_hnsw_existing [OF ex1 nr1 h]
  from s h show "hnsw_builds (snd (snd (handle_hnsw st1))) = hnsw_builds (snd st1)" by simp
  from s h f show "hnsw_builds (snd (snd (handle_hnsw st1))) \<le> hnsw_builds (snd st) + 1" by simp
  from s h show "db_indexes (snd (snd (handle_hnsw st1))) = db_indexes (snd st1)" by simp
  from s h show "case fst (handle_hnsw st1) of
           Inr u \<Rightarrow> warnings (snd (snd (handle_hnsw st1))) = warnings (snd st1) @ [HNSW_WARNING]
         | Inl e \<Rightarrow> e = DocumentStoreError"
    by (auto split: sum.splits)
qed

lemma handle_hnsw_first:
  "handle_hnsw (hnsw_store2, pg_world0) =
     (Inr (), (hnsw_store2,
        pg_world0\<lparr>db_indexes := [(''haystack_documents'', ''haystack_hnsw_index'')],
                  db_calls := [SelectIndexExists ''haystack_documents'' ''haystack_hnsw_index'',
                               DropIndex ''haystack_hnsw_index'',
                               CreateIndex ''haystack_documents'' ''haystack_hnsw_index''
                                 (Hnsw ''vector_cosine_ops'' [])]\<rparr>))"
  by (simp add: handle_hnsw_def create_hnsw_index_def Cursor_execute_def pg_hnsw_calls
      note_call_def hnsw_store2_def store2_def default_store_def pg_world0_def
      VECTOR_FUNCTION_TO_POSTGRESQL_OPS_def HNSW_INDEX_CREATION_VALID_KWARGS_def Let_def)

theorem handle_hnsw_idempotent_witness:
  "\<not> hnsw_recreate_index_if_exists (fst (hnsw_store2, pg_world0))
   \<and> fst (handle_hnsw (hnsw_store2, pg_world0)) = Inr ()
   \<and> hnsw_builds (snd (snd (handle_hnsw (hnsw_store2, pg_world0)))) = 1
   \<and> (''haystack_documents'', ''haystack_hnsw_index'')
       \<in> set (db_indexes (snd (snd (handle_hnsw (hnsw_store2, pg_world0)))))
   \<and> fst (handle_hnsw (snd (handle_hnsw (hnsw_store2, pg_world0)))) = Inr ()
   \<and> hnsw_builds (snd (snd (handle_hnsw (snd (handle_hnsw (hnsw_store2, pg_world0)))))) = 1
   \<and> db_indexes (snd (snd (handle_hnsw (snd (handle_hnsw (hnsw_store2, pg_world0))))))
       = [(''haystack_documents'', ''haystack_hnsw_index'')]
   \<and> warnings (snd (snd (handle_hnsw (snd (handle_hnsw (hnsw_store2, pg_world0))))))
       = [HNSW_WARNING]"
proof -
  let ?st = "(hnsw_store2, pg_world0)"
  let ?st1 = "snd (handle_hnsw ?st)"
  have nr: "\<not> hnsw_recreate_index_if_exists (fst ?st)"
    by (simp add: hnsw_store2_def store2_def default_store_def)
  have first: "handle_hnsw ?st = (Inr (), ?st1)"
    by (simp add: handle_hnsw_first)
  have ok1: "fst (handle_hnsw ?st) = Inr ()"
    by (simp add: handle_hnsw_first)
  have b1: "hnsw_builds (snd ?st1) = 1"
    by (simp add: handle_hnsw_first hnsw_builds_def)
  have i1: "db_indexes (snd ?st1) = [(''haystack_documents'', ''haystack_hnsw_index'')]"
    by (simp add: handle_hnsw_first)
  have w1: "warnings (snd ?st1) = []"
    unfolding handle_hnsw_first by (simp add: pg_world0_def)
  have ok2: "fst (handle_hnsw ?st1) = Inr ()"
    unfolding handle_hnsw_first
    by (simp add: handle_hnsw_def Cursor_execute_def pg_hnsw_calls
        note_call_def hnsw_store2_def store2_def default_store_def pg_world0_def)
  from handle_hnsw_idempotent [OF nr] first
  have "hnsw_builds (snd (snd (handle_hnsw ?st1))) = hnsw_builds (snd ?st1)
      \<and> db_indexes (snd (snd (handle_hnsw ?st1))) = db_indexes (snd ?st1)
      \<and> (case fst (handle_hnsw ?st1) of
            Inr u \<Rightarrow> warnings (snd (snd (handle_hnsw ?st1))) = warnings (snd ?st1) @ [HNSW_WARNING]
          | Inl e \<Rightarrow> e = DocumentStoreError)"
    by blast
  with ok2 w1 b1 i1
  have "hnsw_builds (snd (snd (handle_hnsw ?st1))) = 1
      \<and> db_indexes (snd (snd (handle_hnsw ?st1))) = [(''haystack_documents'', ''haystack_hnsw_index'')]
      \<and> warnings (snd (snd (handle_hnsw ?st1))) = [HNSW_WARNING]"
    by simp
  with nr ok1 ok2 b1 i1 show ?thesis by simp
qed

section \<open>A filter mapping that is neither a comparison nor a combinator\<close>

text \<open>
  Claim C5, as amended. In the pgvector store, for every filter given as a non-empty
  mapping that has neither the key \<^verbatim>\<open>operator\<close> nor the key \<^verbatim>\<open>conditions\<close>,
  \<^verbatim>\<open>filter_documents\<close> raises \<^verbatim>\<open>ValueError\<close> and leaves the instance and the server as
  they were: no connection is opened and no statement is sent. The Azure store's
  \<^verbatim>\<open>filter_documents\<close> does not look at its filters.
\<close>

theorem filter_documents_rejects_unmarked_mapping:
  assumes "kvs \<noteq> []" and "''operator'' \<notin> fst ` set kvs" and "''conditions'' \<notin> fst ` set kvs"
  shows "filter_documents conv (FiltersDict kvs) st = (Inl ValueError, st)
       \<and> azure_filter_documents (FiltersDict kvs) ast = azure_filter_documents FiltersNone ast"
  using assms by (simp add: filter_documents_def azure_filter_documents_def)

theorem filter_documents_rejects_unmarked_mapping_witness:
  "[(''field'', ())] \<noteq> [] \<and> ''operator'' \<notin> fst ` set [(''field'', ())]
   \<and> ''conditions'' \<notin> fst ` set [(''field'', ())]
   \<and> filter_documents (\<lambda>f operator. Inl FilterError) (FiltersDict [(''field'', ())])
        (store2, pg_world0) = (Inl ValueError, (store2, pg_world0))
   \<and> azure_filter_documents (FiltersDict [(''field'', ())]) (az_store0, az_world0)
       = azure_filter_documents FiltersNone (az_store0, az_world0)"
  using filter_documents_rejects_unmarked_mapping
    [of "[(''field'', ())]" "\<lambda>f operator. Inl FilterError" "(store2, pg_world0)"
        "(az_store0, az_world0)"]
  by simp

text \<open>
  The claim as stated fails: the empty mapping has neither key, and the pgvector store
  answers it with the documents after opening a connection; the error of a non-empty
  such mapping is the built-in \<^verbatim>\<open>ValueError\<close>; and the Azure store answers every
  mapping with the documents of the index.
\<close>

lemma filter_documents_empty_mapping:
  "filter_documents conv (FiltersDict []) (store2, pg_world0) =
     (Inr [], (store2\<lparr>p_connection := Some 0, p_schema_is_initialized := True\<rparr>,
        pg_world0\<lparr>db_indexes := [(''haystack_documents'', ''haystack_keyword_index'')],
                  db_calls := [Connect ''PG_CONN_STR'', CreateExtension, CreateTable 2,
                     SelectIndexExists ''haystack_documents'' ''haystack_keyword_index'',
                     CreateIndex ''haystack_documents'' ''haystack_keyword_index'' (Gin ''english''),
                     SelectAll None],
                  db_connections := 1\<rparr>))"
  apply (simp add: filter_documents_def compile_filters_def connection_store2)
  apply (simp add: Cursor_execute_def pg_execute_select_all note_call_def pg_world0_def
      from_pg_to_haystack_documents_def)
  done

lemma azure_filter_documents_empty_index:
  "fst (azure_filter_documents filters (az_store0, az_world0)) = Inr []
   \<and> az_requests (snd (snd (azure_filter_documents filters (az_store0, az_world0)))) \<noteq> []"
  by (simp add: azure_filter_documents_def client_def index_exists_def sdk_list_index_names_def
      az_note_def count_documents_def sdk_get_document_count_def sdk_search_all_def
      az_store0_def az_world0_def)

theorem filter_documents_unmarked_mapping_counterexample:
  "fst (filter_documents (\<lambda>f operator. Inl FilterError) (FiltersDict ([] :: (string \<times> unit) list))
          (store2, pg_world0)) = Inr []
   \<and> db_calls (snd (snd (filter_documents (\<lambda>f operator. Inl FilterError)
          (FiltersDict ([] :: (string \<times> unit) list)) (store2, pg_world0)))) \<noteq> []
   \<and> fst (filter_documents (\<lambda>f operator. Inl FilterError) (FiltersDict [(''field'', ())])
          (store2, pg_world0)) = Inl ValueError
   \<and> fst (azure_filter_documents (FiltersDict [(''field'', ())]) (az_store0, az_world0)) = Inr []
   \<and> az_requests (snd (snd (azure_filter_documents (FiltersDict [(''field'', ())])
          (az_store0, az_world0)))) \<noteq> []"
  using azure_filter_documents_empty_index [of "FiltersDict [(''field'', ())]"]
  by (simp add: filter_documents_empty_mapping) (simp add: filter_documents_def)

section \<open>The order of a vector search\<close>

lemma connection_store2_connected:
  "connection (store2_connected, w) = (Inr 0, (store2_connected, w))"
  by (simp add: connection_established store2_connected_def)

lemma store2_connected_fields:
  "vector_function store2_connected = ''cosine_similarity''"
  "embedding_dimension store2_connected = 2"
  "language store2_connected = ''english''"
  by (simp_all add: store2_connected_def store2_def default_store_def)

lemma sqrt_25: "sqrt 25 = 5"
  by (rule real_sqrt_unique) simp_all

lemma embedding_retrieval_cosine_first:
  "fst (embedding_retrieval (\<lambda>f operator. Inl FilterError) [1, 0] (FiltersNone :: unit pyfilters) 1
      None (store2_connected, pg_world3))
   = Inr [from_pg_to_haystack_document (row ''n'' None, None)]"
  apply (simp add: embedding_retrieval_def VALID_VECTOR_FUNCTIONS_def score_expr_of_def
      compile_filters_def connection_store2_connected sort_order_of_def
      store2_connected_fields)
  apply (simp add: Cursor_execute_def pg_execute_def pg_world3_def pg_world0_def
      from_pg_to_haystack_documents_def order_by_score_def score_of_def where_matches_def
      row_def dot_def max_bigint_def sqrt_25)
  done

lemma embedding_retrieval_cosine_all:
  "fst (embedding_retrieval (\<lambda>f operator. Inl FilterError) [1, 0] (FiltersNone :: unit pyfilters) 10
      None (store2_connected, pg_world3))
   = Inr (map from_pg_to_haystack_document
       [(row ''n'' None, None), (row ''z'' (Some [0, 0]), Some NaN),
        (row ''a'' (Some [1, 0]), Some (Number 1)), (row ''c'' (Some [3, 4]), Some (Number (3 / 5))),
        (row ''b'' (Some [0, 1]), Some (Number 0))])"
  apply (simp add: embedding_retrieval_def VALID_VECTOR_FUNCTIONS_def score_expr_of_def
      compile_filters_def connection_store2_connected sort_order_of_def
      store2_connected_fields)
  apply (simp add: Cursor_execute_def pg_execute_def pg_world3_def pg_world0_def
      from_pg_to_haystack_documents_def order_by_score_def score_of_def where_matches_def
      row_def dot_def max_bigint_def sqrt_25)
  done

lemma embedding_retrieval_inner_product_first:
  "fst (embedding_retrieval (\<lambda>f operator. Inl FilterError) [1, 0] (FiltersNone :: unit pyfilters) 1
      (Some ''inner_product'') (store2_connected, pg_world3))
   = Inr [from_pg_to_haystack_document (row ''n'' None, None)]"
  apply (simp add: embedding_retrieval_def VALID_VECTOR_FUNCTIONS_def score_expr_of_def
      compile_filters_def connection_store2_connected sort_order_of_def
      store2_connected_fields)
  apply (simp add: Cursor_execute_def pg_execute_def pg_world3_def pg_world0_def
      from_pg_to_haystack_documents_def order_by_score_def score_of_def where_matches_def
      row_def dot_def max_bigint_def)
  done

lemma embedding_retrieval_l2_all:
  "fst (embedding_retrieval (\<lambda>f operator. Inl FilterError) [1, 0] (FiltersNone :: unit pyfilters) 10
      (Some ''l2_distance'') (store2_connected, pg_world3))
   = Inr (map from_pg_to_haystack_document
       [(row ''a'' (Some [1, 0]), Some (Number 0)), (row ''z'' (Some [0, 0]), Some (Number 1)),
        (row ''b'' (Some [0, 1]), Some (Number (sqrt 2))),
        (row ''c'' (Some [3, 4]), Some (Number (sqrt 20))), (row ''n'' None, None)])"
  apply (simp add: embedding_retrieval_def VALID_VECTOR_FUNCTIONS_def score_expr_of_def
      compile_filters_def connection_store2_connected sort_order_of_def
      store2_connected_fields)
  apply (simp add: Cursor_execute_def pg_execute_def pg_world3_def pg_world0_def
      from_pg_to_haystack_documents_def order_by_score_def score_of_def where_matches_def
      row_def dot_def max_bigint_def)
  done

text \<open>
  Claim C7 fails in \<^verbatim>\<open>_embedding_retrieval\<close>: the results are not always led by the
  highest score. The statement sorts with \<^verbatim>\<open>ORDER BY score DESC\<close> for
  \<^verbatim>\<open>cosine_similarity\<close> and \<^verbatim>\<open>inner_product\<close> and does not exclude rows whose embedding
  is null, and the server puts a null score before every score in descending order. On
  the table of five documents, searching for the single most similar document to
  \<^verbatim>\<open>[1, 0]\<close> returns the document without an embedding, with no score, under both
  similarity functions, although the table holds the query vector itself; a search for
  ten documents under \<^verbatim>\<open>cosine_similarity\<close> returns the document without a score first,
  then the document whose score is NaN, and only then the scored documents in descending
  order. Under \<^verbatim>\<open>l2_distance\<close> the same table comes back nearest first, the document
  without a score last.
\<close>

theorem embedding_retrieval_unscored_first:
  "fst (embedding_retrieval (\<lambda>f operator. Inl FilterError) [1, 0] (FiltersNone :: unit pyfilters) 1
      None (store2_connected, pg_world3))
   = Inr [from_pg_to_haystack_document (row ''n'' None, None)]
   \<and> fst (embedding_retrieval (\<lambda>f operator. Inl FilterError) [1, 0] (FiltersNone :: unit pyfilters) 1
      (Some ''inner_product'') (store2_connected, pg_world3))
   = Inr [from_pg_to_haystack_document (row ''n'' None, None)]
   \<and> fst (embedding_retrieval (\<lambda>f operator. Inl FilterError) [1, 0] (FiltersNone :: unit pyfilters) 10
      None (store2_connected, pg_world3))
   = Inr (map from_pg_to_haystack_document
       [(row ''n'' None, None), (row ''z'' (Some [0, 0]), Some NaN),
        (row ''a'' (Some [1, 0]), Some (Number 1)), (row ''c'' (Some [3, 4]), Some (Number (3 / 5))),
        (row ''b'' (Some [0, 1]), Some (Number 0))])
   \<and> fst (embedding_retrieval (\<lambda>f operator. Inl FilterError) [1, 0] (FiltersNone :: unit pyfilters) 10
      (Some ''l2_distance'') (store2_connected, pg_world3))
   = Inr (map from_pg_to_haystack_document
       [(row ''a'' (Some [1, 0]), Some (Number 0)), (row ''z'' (Some [0, 0]), Some (Number 1)),
        (row ''b'' (Some [0, 1]), Some (Number (sqrt 2))),
        (row ''c'' (Some [3, 4]), Some (Number (sqrt 20))), (row ''n'' None, None)])"
  using embedding_retrieval_cosine_first embedding_retrieval_inner_product_first
    embedding_retrieval_cosine_all embedding_retrieval_l2_all
  by (intro conjI)
section \<open>Writing under the policy FAIL\<close>







section \<open>Batches with an element that is not a well-formed document\<close>





section \<open>The count a write returns\<close>



section \<open>Overwriting a stored document\<close>

text \<open>
  Claim C3 fails in the Azure store: under \<^verbatim>\<open>OVERWRITE\<close> the store sends the documents
  with \<^verbatim>\<open>merge_or_upload_documents\<close>, which merges a document into the stored one with its
  key. The index holds document \<^verbatim>\<open>1\<close> with the metadata field \<^verbatim>\<open>a\<close>; overwriting it with
  a document that has no metadata returns 1 and replaces the content and the embedding,
  and the stored document still has \<^verbatim>\<open>a\<close>. The pgvector store does what the claim says:
  its \<^verbatim>\<open>ON CONFLICT (id) DO UPDATE\<close> assigns every column, so overwriting document \<^verbatim>\<open>a\<close>
  with a document without an embedding leaves a row whose embedding is null.
\<close>

theorem azure_overwrite_merges_fields:
  "fst (azure_write_documents [Doc (plain_document ''1'' [] (Some [0, 1]))] OVERWRITE
          (az_store0, az_world1)) = Inr 1
   \<and> index_documents az_world1 ''default''
     = [(''1'', [(''id'', PyStr ''1''), (''content'', PyStr ''old''), (''embedding'', PyVec [1, 0]),
                 (''a'', PyInt 1)])]
   \<and> index_documents (snd (snd (azure_write_documents
          [Doc (plain_document ''1'' [] (Some [0, 1]))] OVERWRITE (az_store0, az_world1))))
        ''default''
     = [(''1'', [(''id'', PyStr ''1''), (''content'', PyStr ''1''), (''embedding'', PyVec [0, 1]),
                 (''a'', PyInt 1)])]
   \<and> table_rows (snd (snd (write_documents [Doc (plain_document ''a'' [(''k'', PyInt 1)] None)]
       OVERWRITE (store2_connected, pg_world3))))
     = [to_db_document (plain_document ''a'' [(''k'', PyInt 1)] None), row ''b'' (Some [0, 1]),
        row ''c'' (Some [3, 4]), row ''n'' None, row ''z'' (Some [0, 0])]"
  using azure_overwrite_example write_documents_overwrite_example
  by (simp add: index_documents_def az_world1_def)
section \<open>Reading back a document without an embedding\<close>

text \<open>
  Claim C6 fails in the Azure store: \<^verbatim>\<open>_convert_search_result_to_documents\<close> compares
  the stored vector with \<^verbatim>\<open>self._dummy_vector\<close>, an attribute that \<^verbatim>\<open>__init__\<close> does not
  set and only the conversion of a written document without an embedding creates. A
  store writes a document without an embedding, which puts the placeholder vector into
  the index; read by the same instance the document comes back without an embedding,
  but read by an instance that has not written such a document (a new instance on the
  same index) the call raises \<^verbatim>\<open>AttributeError\<close>. The same happens on an index whose
  documents all have embeddings.
\<close>

theorem azure_read_needs_dummy_vector:
  "index_documents (snd (snd (azure_write_documents [Doc (plain_document ''2'' [] None)] FAIL
        (az_store0, az_world0)))) ''default''
     = [(''2'', [(''id'', PyStr ''2''), (''content'', PyStr ''2''),
                 (''embedding'', PyVec [- 10, - 10])])]
   \<and> fst (azure_filter_documents (FiltersNone :: unit pyfilters)
       (snd (azure_write_documents [Doc (plain_document ''2'' [] None)] FAIL
          (az_store0, az_world0))))
     = Inr [plain_document ''2'' [] None]
   \<and> fst (azure_filter_documents (FiltersNone :: unit pyfilters)
       (az_store0,
        snd (snd (azure_write_documents [Doc (plain_document ''2'' [] None)] FAIL
          (az_store0, az_world0)))))
     = Inl AttributeError
   \<and> fst (azure_filter_documents (FiltersNone :: unit pyfilters) (az_store0, az_world1))
     = Inl AttributeError"
  using azure_read_same_instance azure_read_fresh_instance azure_read_fresh_instance_any
  by (simp add: azure_write_without_embedding index_documents_def)
section \<open>Query text and user-supplied values\<close>

lemma join_singleton: "join sep [x] = x"
  by simp

lemma keyword_retrieval_sql_query_independent:
  "keyword_retrieval_sql s q1 w k = keyword_retrieval_sql s q2 w k"
  by (simp add: keyword_retrieval_sql_def)

lemma embedding_retrieval_sql_depends_on_embedding:
  assumes "str_el a \<noteq> str_el b"
  shows "embedding_retrieval_sql s str_el [a] w k ''l2_distance''
         \<noteq> embedding_retrieval_sql s str_el [b] w k ''l2_distance''"
  using assms
  by (simp add: embedding_retrieval_sql_def score_definition_def
      query_embedding_for_postgres_def)

text \<open>
  Claim C2 (the generated query text is the same for any two choices of the user-supplied
  values) fails for \<^verbatim>\<open>delete_documents\<close>: the ids are part of the statement text. Two
  different id lists give two different statements, and an id that holds a single quote
  closes the quoted literal and continues as SQL: the id
  \<^verbatim>\<open>x') OR ('1'='1\<close> gives a statement whose condition is
  \<^verbatim>\<open>id IN ('x') OR ('1'='1')\<close>.
\<close>

theorem delete_documents_sql_splices_ids:
  "delete_documents_sql default_store [''a''] \<noteq> delete_documents_sql default_store [''b'']
   \<and> delete_documents_sql default_store [''x'' @ sq @ '') OR ('' @ sq @ ''1'' @ sq @ ''='' @ sq @ ''1'']
     = Some (''DELETE FROM '' @ dq @ ''public'' @ dq @ ''.'' @ dq @ ''haystack_documents'' @ dq
             @ '' WHERE id IN ('' @ sq @ ''x'' @ sq @ '') OR ('' @ sq @ ''1'' @ sq @ ''=''
             @ sq @ ''1'' @ sq @ '')'')"
  by (simp add: delete_documents_sql_def document_ids_str_def qualified_table_def
      Identifier_def default_store_def sq_def dq_def)

end
